theory Spec2Isabelle
  imports Complex_Main
begin

section \<open>Errors and Python values\<close>

text \<open>
  The exceptions raised by \<^verbatim>\<open>pytensor/tensor/conv/abstract_conv.py\<close>. A
  \<open>ValueError\<close> carries the text of its message (the template of an f-string, with
  its placeholders) and the shape tuples interpolated into it.
\<close>

datatype error =
    ValueError string "int option list list"
  | TypeError string
  | NotImplementedError string
  | ZeroDivisionError
  | IndexError
  | AssertionError

text \<open>
  A Python number: \<open>int\<close> is unbounded; a \<open>float\<close> is produced only by true division
  \<^verbatim>\<open>/\<close> of two ints and carries the quotient (rounding is not modelled, the tag is).
\<close>

datatype pynum = PyInt int | PyFloat rat

text \<open>
  The border mode of one axis, as \<^verbatim>\<open>get_conv_shape_1axis\<close> receives it: a string, an
  int, or a tuple of ints.
\<close>

datatype border1 = BStr string | BInt int | BTup "int list"

text \<open>
  The border mode of an operator: a string, an int, or a tuple with one entry per axis.
\<close>

datatype border_mode = BMStr string | BMInt int | BMTuple "border1 list"

section \<open>Shape arithmetic for one axis\<close>

text \<open>
  \<^verbatim>\<open>pad_l, pad_r = border_mode\<close> for a tuple, \<^verbatim>\<open>pad_l = pad_r = border_mode\<close>
  otherwise, then \<^verbatim>\<open>if pad_l < 0 or pad_r < 0: raise ValueError\<close>: the \<^verbatim>\<open>else\<close> branch
  shared by the three single-axis shape functions. A string other than the three named modes
  reaches the comparison \<^verbatim>\<open>pad_l < 0\<close>, a TypeError; a tuple that is not a pair fails to
  unpack, a ValueError.
\<close>

fun explicit_pad :: "border1 \<Rightarrow> error + (int \<times> int)" where
  "explicit_pad (BTup [l, r]) =
     (if l < 0 \<or> r < 0 then Inl (ValueError ''border_mode must be >= 0'' []) else Inr (l, r))"
| "explicit_pad (BTup _) = Inl (ValueError ''values to unpack (expected 2)'' [])"
| "explicit_pad (BInt v) =
     (if v < 0 then Inl (ValueError ''border_mode must be >= 0'' []) else Inr (v, v))"
| "explicit_pad (BStr _) = Inl (TypeError ''< not supported between str and int'')"

text \<open>\<^verbatim>\<open>get_conv_shape_1axis\<close>, lines 106 to 161.\<close>

definition get_conv_shape_1axis ::
  "int option \<Rightarrow> int option \<Rightarrow> border1 option \<Rightarrow> int option \<Rightarrow> int option
     \<Rightarrow> error + int option" where
  "get_conv_shape_1axis image_shape kernel_shape border_mode subsample dilation =
     (case (image_shape, kernel_shape, border_mode, subsample, dilation) of
        (Some im, Some k, Some m, Some s, Some d) \<Rightarrow>
          (let dil_kernel_shape = (k - 1) * d + 1;
               pads =
                 (if m = BStr ''half'' then Inr (dil_kernel_shape div 2, dil_kernel_shape div 2)
                  else if m = BStr ''full'' then Inr (dil_kernel_shape - 1, dil_kernel_shape - 1)
                  else if m = BStr ''valid'' then Inr (0, 0)
                  else explicit_pad m)
           in case pads of
                Inl e \<Rightarrow> Inl e
              | Inr (pad_l, pad_r) \<Rightarrow>
                  (let out0 = im - dil_kernel_shape;
                       out1 = (if pad_l \<noteq> 0 then out0 + pad_l else out0);
                       out2 = (if pad_r \<noteq> 0 then out1 + pad_r else out1)
                   in if s \<noteq> 1
                      then (if s = 0 then Inl ZeroDivisionError
                            else Inr (Some (out2 div s + 1)))
                      else Inr (Some (out2 + 1))))
      | _ \<Rightarrow> Inr None)"

text \<open>\<^verbatim>\<open>get_conv_gradweights_shape_1axis\<close>, lines 242 to 296.\<close>

definition get_conv_gradweights_shape_1axis ::
  "int option \<Rightarrow> int option \<Rightarrow> border1 option \<Rightarrow> int option \<Rightarrow> int option
     \<Rightarrow> error + pynum option" where
  "get_conv_gradweights_shape_1axis image_shape top_shape border_mode subsample dilation =
     (case (image_shape, top_shape, border_mode, subsample, dilation) of
        (Some im, Some tp, Some m, Some s, Some d) \<Rightarrow>
          if s \<noteq> 1 \<or> m = BStr ''half'' then Inr None
          else
            (let ks =
                   (if m = BStr ''full'' then Inr (tp - im)
                    else if m = BStr ''valid'' then Inr (im - tp)
                    else (case explicit_pad m of
                            Inl e \<Rightarrow> Inl e
                          | Inr (pad_l, pad_r) \<Rightarrow> Inr (im + pad_l + pad_r - tp)))
             in case ks of
                  Inl e \<Rightarrow> Inl e
                | Inr kernel_shape \<Rightarrow>
                    if d > 1
                    then Inr (Some (PyFloat (of_int kernel_shape / of_int d + 1)))
                    else Inr (Some (PyInt (kernel_shape + 1))))
      | _ \<Rightarrow> Inr None)"

text \<open>\<^verbatim>\<open>get_conv_gradinputs_shape_1axis\<close>, lines 369 to 430.\<close>

definition get_conv_gradinputs_shape_1axis ::
  "int option \<Rightarrow> int option \<Rightarrow> border1 option \<Rightarrow> int option \<Rightarrow> int option
     \<Rightarrow> error + int option" where
  "get_conv_gradinputs_shape_1axis kernel_shape top_shape border_mode subsample dilation =
     (case (kernel_shape, top_shape, border_mode, subsample, dilation) of
        (Some k, Some tp, Some m, Some s, Some d) \<Rightarrow>
          if s \<noteq> 1 then Inr None
          else
            (let dil_kernel_shape = (k - 1) * d + 1;
                 pads =
                   (if m = BStr ''half'' then Inr (dil_kernel_shape div 2, dil_kernel_shape div 2)
                    else if m = BStr ''full''
                    then Inr (dil_kernel_shape - 1, dil_kernel_shape - 1)
                    else if m = BStr ''valid'' then Inr (0, 0)
                    else explicit_pad m)
             in case pads of
                  Inl e \<Rightarrow> Inl e
                | Inr (pad_l, pad_r) \<Rightarrow>
                    (let im0 = tp + dil_kernel_shape - 1;
                         im1 = (if pad_l > 0 then im0 - pad_l else im0);
                         im2 = (if pad_r > 0 then im1 - pad_r else im1)
                     in Inr (Some im2)))
      | _ \<Rightarrow> Inr None)"

subsection \<open>The single-axis output size as the specification words it\<close>

text \<open>
  The specification's \<open>resolve\<close>: half gives \<open>dil_kernel // 2\<close> on both sides, full
  \<open>dil_kernel - 1\<close> on both sides, valid 0, an integer \<open>v\<close> the pair \<open>(v, v)\<close>, a pair
  itself.
\<close>

definition spec_resolve :: "border1 \<Rightarrow> int \<Rightarrow> (int \<times> int) option" where
  "spec_resolve m dil_kernel =
     (if m = BStr ''half'' then Some (dil_kernel div 2, dil_kernel div 2)
      else if m = BStr ''full'' then Some (dil_kernel - 1, dil_kernel - 1)
      else if m = BStr ''valid'' then Some (0, 0)
      else (case m of
              BInt v \<Rightarrow> Some (v, v)
            | BTup [l, r] \<Rightarrow> Some (l, r)
            | _ \<Rightarrow> None))"

text \<open>The explicit padding of a border mode is non-negative (the named modes carry none).\<close>

definition explicit_nonneg :: "border1 \<Rightarrow> bool" where
  "explicit_nonneg m =
     (case m of BInt v \<Rightarrow> 0 \<le> v | BTup ps \<Rightarrow> list_all (\<lambda>p. 0 \<le> p) ps | BStr _ \<Rightarrow> True)"

text \<open>
  A border mode of one axis in the domain of the data model: one of the three named modes, a
  non-negative integer, or a pair of non-negative integers.
\<close>

definition border1_ok :: "border1 \<Rightarrow> bool" where
  "border1_ok m =
     (case m of
        BStr s \<Rightarrow> s = ''valid'' \<or> s = ''full'' \<or> s = ''half''
      | BInt v \<Rightarrow> 0 \<le> v
      | BTup ps \<Rightarrow> length ps = 2 \<and> list_all (\<lambda>p. 0 \<le> p) ps)"

text \<open>The total explicit padding of one axis (both sides), none for a named mode.\<close>

definition explicit_total :: "border1 \<Rightarrow> int" where
  "explicit_total m = (case m of BInt v \<Rightarrow> v + v | BTup ps \<Rightarrow> sum_list ps | BStr _ \<Rightarrow> 0)"

text \<open>An entry of a shape tuple: a non-negative integer (a float is not one).\<close>

definition nonneg_int :: "pynum \<Rightarrow> bool" where
  "nonneg_int v = (case v of PyInt n \<Rightarrow> 0 \<le> n | PyFloat _ \<Rightarrow> False)"

section \<open>Shapes of whole tensors\<close>

text \<open>Python's \<^verbatim>\<open>xs[i]\<close> for a non-negative index, and the slice \<^verbatim>\<open>xs[i:]\<close>.\<close>

definition nth_e :: "'a list \<Rightarrow> nat \<Rightarrow> error + 'a" where
  "nth_e xs i = (if i < length xs then Inr (xs ! i) else Inl IndexError)"

definition py_slice_from :: "int \<Rightarrow> 'a list \<Rightarrow> 'a list" where
  "py_slice_from i xs =
     (if i < 0 then drop (nat (max 0 (int (length xs) + i))) xs else drop (nat i) xs)"

text \<open>Sequencing of results: the first error wins, as the first exception raised does.\<close>

definition bind_e :: "error + 'a \<Rightarrow> ('a \<Rightarrow> error + 'b) \<Rightarrow> error + 'b" where
  "bind_e m f = (case m of Inl e \<Rightarrow> Inl e | Inr x \<Rightarrow> f x)"

fun sequence_e :: "(error + 'a) list \<Rightarrow> error + 'a list" where
  "sequence_e [] = Inr []"
| "sequence_e (m # ms) = bind_e m (\<lambda>x. bind_e (sequence_e ms) (\<lambda>xs. Inr (x # xs)))"

text \<open>
  \<^verbatim>\<open>get_conv_output_shape\<close>, lines 38 to 101. The entry of a tuple border mode for axis
  \<open>i\<close> is \<^verbatim>\<open>border_mode[i]\<close>; a string or an int is passed to every axis.
\<close>

definition border_axis :: "border_mode \<Rightarrow> nat \<Rightarrow> error + border1" where
  "border_axis bm i =
     (case bm of BMTuple ms \<Rightarrow> nth_e ms i | BMStr s \<Rightarrow> Inr (BStr s) | BMInt v \<Rightarrow> Inr (BInt v))"

definition get_conv_output_shape ::
  "int option list \<Rightarrow> int option list \<Rightarrow> border_mode \<Rightarrow> int list \<Rightarrow> int list option
     \<Rightarrow> error + int option list" where
  "get_conv_output_shape image_shape kernel_shape bm subsamp filter_dil =
     bind_e (nth_e image_shape 0) (\<lambda>bsize.
     let imshp = drop 2 image_shape;
         cdim = int (length image_shape) - 2
     in bind_e (nth_e kernel_shape 0) (\<lambda>nkern.
        let kshp = py_slice_from (- cdim) kernel_shape;
            fdil = (case filter_dil of None \<Rightarrow> replicate (length subsamp) 1 | Some fd \<Rightarrow> fd)
        in bind_e
             (sequence_e
                (map (\<lambda>i. bind_e (nth_e imshp i) (\<lambda>im.
                           bind_e (nth_e kshp i) (\<lambda>k.
                           bind_e (border_axis bm i) (\<lambda>m.
                           bind_e (nth_e subsamp i) (\<lambda>s.
                           bind_e (nth_e fdil i) (\<lambda>d.
                             get_conv_shape_1axis im k (Some m) (Some s) (Some d)))))))
                   [0..<length subsamp]))
             (\<lambda>out_shp. Inr (bsize # nkern # out_shp))))"

text \<open>\<^verbatim>\<open>border_mode_to_pad\<close>, lines 600 to 659.\<close>

fun border_pairs :: "border1 list \<Rightarrow> error + (int \<times> int) list" where
  "border_pairs [] = Inr []"
| "border_pairs (BInt m # ms) =
     (if 0 \<le> m then bind_e (border_pairs ms) (\<lambda>r. Inr ((m, m) # r))
      else Inl (ValueError
        ''invalid border mode {mode}. The tuple can only contain integers or tuples of length 2'' []))"
| "border_pairs (BTup [] # ms) = Inl (ValueError ''min() arg is an empty sequence'' [])"
| "border_pairs (BTup ps # ms) =
     (if list_all (\<lambda>p. 0 \<le> p) ps
      then (if length ps \<noteq> 2
            then Inl (NotImplementedError ''Asymmetric padding not implemented for {len(m)}d'')
            else bind_e (border_pairs ms) (\<lambda>r. Inr ((ps ! 0, ps ! 1) # r)))
      else Inl (ValueError
        ''invalid border mode {mode}. The tuple can only contain integers or tuples of length 2'' []))"
| "border_pairs (BStr s # ms) =
     Inl (ValueError
        ''invalid border mode {mode}. The tuple can only contain integers or tuples of length 2'' [])"

definition border_mode_to_pad :: "border_mode \<Rightarrow> nat \<Rightarrow> int list \<Rightarrow> error + (int \<times> int) list" where
  "border_mode_to_pad mode cdim kshp =
     (case mode of
        BMTuple ms \<Rightarrow>
          if length ms \<noteq> cdim
          then Inl (ValueError ''invalid border_mode {mode} which must be a tuple of length {convdim}'' [])
          else border_pairs ms
      | _ \<Rightarrow>
          if mode = BMStr ''full''
          then sequence_e (map (\<lambda>i. bind_e (nth_e kshp i) (\<lambda>k. Inr (k - 1, k - 1))) [0..<cdim])
          else if mode = BMStr ''half''
          then sequence_e (map (\<lambda>i. bind_e (nth_e kshp i) (\<lambda>k. Inr (k div 2, k div 2))) [0..<cdim])
          else if mode = BMStr ''valid'' then Inr (replicate cdim (0, 0))
          else Inl (ValueError
            ''invalid border_mode {mode}, which must be either valid, full, half, an integer or a tuple of length {convdim}'' []))"

section \<open>Construction of an operator\<close>

text \<open>
  The loop of \<^verbatim>\<open>BaseAbstractConv.__init__\<close> over the entries of a tuple border mode
  (lines 2167 to 2190): an entry is a non-negative int or a pair of non-negative ints, a pair
  is accepted in 2D only, and a symmetric pair collapses to its value.
\<close>

fun new_border_mode :: "nat \<Rightarrow> border1 list \<Rightarrow> error + border1 list" where
  "new_border_mode cdim [] = Inr []"
| "new_border_mode cdim (BInt v # ms) =
     (if 0 \<le> v then bind_e (new_border_mode cdim ms) (\<lambda>r. Inr (BInt v # r))
      else Inl (ValueError
        ''invalid border mode {border_mode}. The tuple can only contain integers  or pairs of integers'' []))"
| "new_border_mode cdim (BTup [a, b] # ms) =
     (if 0 \<le> min a b
      then (if cdim \<noteq> 2
            then Inl (NotImplementedError ''Asymmetric padding not implemented for {convdim}D'')
            else bind_e (new_border_mode cdim ms)
                   (\<lambda>r. Inr ((if a = b then BInt a else BTup [a, b]) # r)))
      else Inl (ValueError
        ''invalid border mode {border_mode}. The tuple can only contain integers  or pairs of integers'' []))"
| "new_border_mode cdim (m # ms) =
     Inl (ValueError
        ''invalid border mode {border_mode}. The tuple can only contain integers  or pairs of integers'' [])"

text \<open>
  The normalization of the border mode in \<^verbatim>\<open>BaseAbstractConv.__init__\<close>, lines 2154 to
  2200: an int becomes a tuple, a tuple is checked and its symmetric pairs collapsed, a string
  must be a named mode; a tuple of zeros becomes \<open>valid\<close>.
\<close>

definition init_border_mode :: "nat \<Rightarrow> border_mode \<Rightarrow> error + border_mode" where
  "init_border_mode cdim bm =
     bind_e
       (case bm of
          BMInt v \<Rightarrow>
            if v < 0
            then Inl (ValueError ''invalid border_mode {border_mode}, which must be a non-negative integer'' [])
            else Inr (BMTuple (replicate cdim (BInt v)))
        | BMTuple ms \<Rightarrow>
            if length ms \<noteq> cdim
            then Inl (ValueError ''invalid border_mode {border_mode}, which must be a tuple of length {convdim}'' [])
            else bind_e (new_border_mode cdim ms) (\<lambda>r. Inr (BMTuple r))
        | BMStr s \<Rightarrow>
            if s \<noteq> ''valid'' \<and> s \<noteq> ''full'' \<and> s \<noteq> ''half''
            then Inl (ValueError
              ''invalid border_mode {border_mode}, which must be either valid, full, half, an integer or a tuple of length {convdim}'' [])
            else Inr bm)
       (\<lambda>b. Inr (case b of
                   BMTuple ms \<Rightarrow>
                     if list_all (\<lambda>m. m = BTup [0, 0] \<or> m = BInt 0) ms then BMStr ''valid'' else b
                 | _ \<Rightarrow> b))"

text \<open>
  The properties of an operator (\<^verbatim>\<open>__props__\<close>). The entries of \<open>imshp\<close> and \<open>kshp\<close> are
  constant ints or \<open>None\<close>; a symbolic entry, which the constructor rejects, is outside this
  type.
\<close>

record conv_params =
  convdim :: nat
  border_mode :: border_mode
  subsample :: "int list"
  filter_flip :: bool
  imshp :: "int option list"
  kshp :: "int option list"
  filter_dilation :: "int list"
  num_groups :: int
  unshared :: bool

text \<open>\<^verbatim>\<open>BaseAbstractConv.__init__\<close>, lines 2133 to 2241.\<close>

definition BaseAbstractConv_init ::
  "nat \<Rightarrow> int option list option \<Rightarrow> int option list option \<Rightarrow> border_mode \<Rightarrow> int list option
     \<Rightarrow> bool \<Rightarrow> int list option \<Rightarrow> int \<Rightarrow> bool \<Rightarrow> error + conv_params" where
  "BaseAbstractConv_init cdim im_shp k_shp bm subsamp flip fdil groups unsh =
     (if cdim \<noteq> 2 \<and> cdim \<noteq> 3
      then Inl (ValueError ''convolution dimension {} is not supported'' [])
      else
        let subsamp' = (case subsamp of None \<Rightarrow> replicate cdim 1 | Some ss \<Rightarrow> ss);
            fdil' = (case fdil of None \<Rightarrow> replicate cdim 1 | Some fd \<Rightarrow> fd)
        in bind_e (init_border_mode cdim bm) (\<lambda>bm'.
           let im_shp' = (case im_shp of None \<Rightarrow> replicate (2 + cdim) None | Some sh \<Rightarrow> sh);
               k_shp' = (case k_shp of
                           None \<Rightarrow> replicate (if unsh then 2 + 2 * cdim else 2 + cdim) None
                         | Some sh \<Rightarrow> sh)
           in if length subsamp' \<noteq> cdim
              then Inl (ValueError ''subsample must have {convdim} elements'' [])
              else if length fdil' \<noteq> cdim
              then Inl (ValueError ''filter_dilation must have {convdim} elements'' [])
              else if groups < 1
              then Inl (ValueError ''num_groups must have value greater than zero'' [])
              else if unsh \<and> cdim \<noteq> 2
              then Inl (NotImplementedError ''Unshared convolution not implemented for {convdim}D'')
              else Inr \<lparr>convdim = cdim, border_mode = bm', subsample = subsamp',
                        filter_flip = flip, imshp = im_shp', kshp = k_shp',
                        filter_dilation = fdil', num_groups = groups, unshared = unsh\<rparr>))"

text \<open>
  \<^verbatim>\<open>AbstractConv2d.__init__\<close>, lines 2652 to 2673 (and the same constructor of the two 2D
  gradient operators): the base constructor with \<open>convdim = 2\<close>.
\<close>

definition AbstractConv2d_init ::
  "int option list option \<Rightarrow> int option list option \<Rightarrow> border_mode \<Rightarrow> int list
     \<Rightarrow> bool \<Rightarrow> int list \<Rightarrow> int \<Rightarrow> bool \<Rightarrow> error + conv_params" where
  "AbstractConv2d_init im_shp k_shp bm subsamp flip fdil groups unsh =
     BaseAbstractConv_init 2 im_shp k_shp bm (Some subsamp) flip (Some fdil) groups unsh"

section \<open>Applying the forward operator to tensor variables\<close>

text \<open>
  A tensor variable is modelled by the shape of the value bound to it, so its \<open>ndim\<close> is the
  length of that shape. \<^verbatim>\<open>assert_shape\<close> (lines 564 to 597) wraps the variable in an
  \<open>Assert\<close> that fails at run time when a known entry of the expected shape differs; it does
  nothing unless the configuration flag \<^verbatim>\<open>conv__assert_shape\<close> is set.
\<close>

definition assert_shape :: "bool \<Rightarrow> int list \<Rightarrow> int option list \<Rightarrow> error + int list" where
  "assert_shape conv_assert_shape x expected_shape =
     (if \<not> conv_assert_shape then Inr x
      else if length expected_shape < length x then Inl IndexError
      else if \<exists>i < length x. expected_shape ! i \<noteq> None \<and> expected_shape ! i \<noteq> Some (x ! i)
      then Inl AssertionError
      else Inr x)"

text \<open>
  \<^verbatim>\<open>AbstractConv.infer_shape\<close>, lines 2619 to 2643: the known entries of \<open>imshp\<close> and
  \<open>kshp\<close> replace the shapes of the inputs.
\<close>

definition replace_known :: "int option list \<Rightarrow> int list \<Rightarrow> nat \<Rightarrow> error + int option list" where
  "replace_known static sh n =
     sequence_e (map (\<lambda>i. bind_e (nth_e static i) (\<lambda>c.
                            case c of Some v \<Rightarrow> Inr (Some v)
                                    | None \<Rightarrow> bind_e (nth_e sh i) (\<lambda>v. Inr (Some v))))
                   [0..<n])"

definition AbstractConv_infer_shape ::
  "conv_params \<Rightarrow> int list \<Rightarrow> int list \<Rightarrow> error + int option list" where
  "AbstractConv_infer_shape op img kern =
     bind_e (replace_known (imshp op) img (2 + convdim op)) (\<lambda>imshp'.
     bind_e (replace_known (kshp op) kern
               (if unshared op then 2 + 2 * convdim op else 2 + convdim op)) (\<lambda>kshp'.
       get_conv_output_shape imshp' kshp' (border_mode op) (subsample op)
         (Some (filter_dilation op))))"

text \<open>
  \<^verbatim>\<open>AbstractConv.make_node\<close>, lines 2456 to 2495, on variables modelled by shapes: the
  checks of the ranks, the two shape assertions, and an output whose shape is the one
  \<^verbatim>\<open>infer_shape\<close> gives.
\<close>

definition AbstractConv_apply ::
  "bool \<Rightarrow> conv_params \<Rightarrow> int list \<Rightarrow> int list \<Rightarrow> error + int option list" where
  "AbstractConv_apply conv_assert_shape op img kern =
     (if length img \<noteq> 2 + convdim op then Inl (TypeError ''img must be {2 + convdim}D tensor'')
      else if unshared op \<and> length kern \<noteq> 2 + 2 * convdim op
      then Inl (TypeError ''kern must be {2 + 2 * convdim}D tensor for unshared convolution'')
      else if \<not> unshared op \<and> length kern \<noteq> 2 + convdim op
      then Inl (TypeError ''kern must be {2 + convdim}D tensor'')
      else bind_e (assert_shape conv_assert_shape img (imshp op)) (\<lambda>img'.
           bind_e (assert_shape conv_assert_shape kern (kshp op)) (\<lambda>kern'.
             AbstractConv_infer_shape op img' kern')))"

section \<open>The composition layer\<close>

text \<open>
  \<^verbatim>\<open>causal_conv1d\<close>, lines 1639 to 1742. The result is the operator constructed and the
  shape of the output \<^verbatim>\<open>output[:, :, :, 0]\<close>.
\<close>

definition causal_conv1d ::
  "bool \<Rightarrow> int list \<Rightarrow> int list \<Rightarrow> int option list \<Rightarrow> int option list option \<Rightarrow> int \<Rightarrow> bool
     \<Rightarrow> int \<Rightarrow> int \<Rightarrow> bool \<Rightarrow> error + (conv_params \<times> int option list)" where
  "causal_conv1d conv_assert_shape input filters filter_shape input_shape subsamp flip fdil
       groups unsh =
     (if length input \<noteq> 3 then Inl (ValueError ''Input should be 3D for causal convolution.'' [])
      else if length filters \<noteq> 3
      then Inl (ValueError ''Filters should be 3D for causal convolution'' [])
      else
        let input' = input @ [1];
            filters' = filters @ [1]
        in if (case input_shape of None \<Rightarrow> False | Some sh \<Rightarrow> length sh \<noteq> 3)
           then Inl AssertionError
           else
             let input_shape' = map_option (\<lambda>sh. sh @ [Some 1]) input_shape
             in if length filter_shape \<noteq> 3 then Inl AssertionError
                else
                  let filter_shape' = filter_shape @ [Some 1]
                  in case filter_shape' ! 2 of
                       None \<Rightarrow> Inl (TypeError ''unsupported operand type(s) for -: NoneType and int'')
                     | Some klen \<Rightarrow>
                         let left_pad = fdil * (klen - 1)
                         in bind_e
                              (AbstractConv2d_init input_shape' (Some filter_shape')
                                 (BMTuple [BTup [left_pad, 0], BInt 0]) [subsamp, 1] flip
                                 [fdil, 1] groups unsh) (\<lambda>conv_op.
                            bind_e (AbstractConv_apply conv_assert_shape conv_op input' filters')
                              (\<lambda>output.
                                 case output ! 3 of
                                   Some w \<Rightarrow> if 1 \<le> w then Inr (conv_op, take 3 output)
                                             else Inl IndexError
                                 | None \<Rightarrow> Inr (conv_op, take 3 output))))"






text \<open>
  The static shape given to a constructor agrees with the shape at run time: every entry is
  \<open>None\<close> or the size at run time.
\<close>

definition shape_matches :: "int option list \<Rightarrow> int list \<Rightarrow> bool" where
  "shape_matches static x = list_all2 (\<lambda>s v. s = None \<or> s = Some v) static x"

section \<open>Arrays\<close>

text \<open>
  A numpy array: its shape and the value at each index (a list with one entry per axis).
  Only the values at the indices inside the shape belong to the array.
\<close>

datatype 'a ndarray = NdArray (shape: "nat list") (elem: "nat list \<Rightarrow> 'a")

text \<open>Two arrays are equal when their shapes are and their values inside the shape are.\<close>

fun in_bounds :: "nat list \<Rightarrow> nat list \<Rightarrow> bool" where
  "in_bounds [] [] = True"
| "in_bounds (n # ns) (i # idx) = (i < n \<and> in_bounds ns idx)"
| "in_bounds _ _ = False"

definition array_eq :: "'a ndarray \<Rightarrow> 'a ndarray \<Rightarrow> bool" where
  "array_eq a b = (shape a = shape b \<and> (\<forall>idx. in_bounds (shape a) idx \<longrightarrow> elem a idx = elem b idx))"

text \<open>The position of an axis in a tuple of axes, as \<^verbatim>\<open>np.argsort\<close> of a permutation gives it.\<close>

fun index_of :: "nat \<Rightarrow> nat list \<Rightarrow> nat" where
  "index_of j [] = 0"
| "index_of j (a # as) = (if a = j then 0 else Suc (index_of j as))"

text \<open>
  \<^verbatim>\<open>a.transpose(axes)\<close>: axis \<open>k\<close> of the result is axis \<open>axes[k]\<close> of \<open>a\<close>. The tuple of
  axes is a permutation of the axes of \<open>a\<close> at every call of the source.
\<close>

definition transpose_nd :: "nat list \<Rightarrow> 'a ndarray \<Rightarrow> 'a ndarray" where
  "transpose_nd axes a =
     NdArray (map (\<lambda>k. shape a ! k) axes)
       (\<lambda>idx. elem a (map (\<lambda>j. idx ! index_of j axes) [0..<length axes]))"

text \<open>Row-major flattening, \<^verbatim>\<open>np.ravel\<close>: the multi-index of a flat position.\<close>

fun unravel :: "nat list \<Rightarrow> nat \<Rightarrow> nat list" where
  "unravel [] p = []"
| "unravel (n # ns) p = (p div prod_list ns) mod n # unravel ns (p mod prod_list ns)"

text \<open>Row-major flattening: the flat position of a multi-index.\<close>

fun ravel :: "nat list \<Rightarrow> nat list \<Rightarrow> nat" where
  "ravel (n # ns) (i # idx) = i * prod_list ns + ravel ns idx"
| "ravel _ _ = 0"

text \<open>The sum of a function over all the indices of a shape, in row-major order.\<close>

fun sum_idx :: "nat list \<Rightarrow> (nat list \<Rightarrow> 'a::comm_monoid_add) \<Rightarrow> 'a" where
  "sum_idx [] f = f []"
| "sum_idx (n # ns) f = sum_list (map (\<lambda>i. sum_idx ns (\<lambda>idx. f (i # idx))) [0..<n])"

text \<open>
  The inner product of two arrays of one shape: the sum of the products of their values,
  \<^verbatim>\<open>np.sum(a * b)\<close>.
\<close>

definition inner_nd :: "'a::comm_semiring_0 ndarray \<Rightarrow> 'a ndarray \<Rightarrow> 'a" where
  "inner_nd a b = sum_idx (shape a) (\<lambda>idx. elem a idx * elem b idx)"

text \<open>\<^verbatim>\<open>np.zeros(shape)\<close>: a negative dimension is a ValueError.\<close>

definition zeros :: "nat list \<Rightarrow> 'a::zero ndarray" where
  "zeros shp = NdArray shp (\<lambda>_. 0)"

definition np_zeros :: "int list \<Rightarrow> error + 'a::zero ndarray" where
  "np_zeros shp =
     (if list_ex (\<lambda>n. n < 0) shp then Inl (ValueError ''negative dimensions are not allowed'' [])
      else Inr (zeros (map nat shp)))"

text \<open>
  A slice with a step, \<^verbatim>\<open>a[::s]\<close>, of an axis of length \<open>n\<close>: its length, the position in
  \<open>a\<close> of its entry \<open>i\<close>, and the entry of the slice at a position of \<open>a\<close>, if there is one.
  A negative step runs from the end: \<^verbatim>\<open>a[::-1]\<close> reverses the axis. The step is not 0.
\<close>

definition slice_len :: "nat \<Rightarrow> int \<Rightarrow> nat" where
  "slice_len n s = (n + nat \<bar>s\<bar> - 1) div nat \<bar>s\<bar>"

definition slice_pos :: "nat \<Rightarrow> int \<Rightarrow> nat \<Rightarrow> nat" where
  "slice_pos n s i = (if 0 < s then i * nat s else n - 1 - i * nat (- s))"

definition slice_inv :: "nat \<Rightarrow> int \<Rightarrow> nat \<Rightarrow> nat option" where
  "slice_inv n s p =
     (let q = (if 0 < s then p else n - 1 - p)
      in if q mod nat \<bar>s\<bar> = 0 then Some (q div nat \<bar>s\<bar>) else None)"

text \<open>
  \<^verbatim>\<open>a[::s0, ::s1, ...]\<close> with a step for each leading axis of \<open>a\<close> (the step 1 for an axis
  taken whole, as the axes after the last step are): reading it, and assigning an array of its
  shape to it. numpy raises an IndexError for more steps than axes, a ValueError for a step 0
  and for an assigned array of another shape (no call of the source relies on broadcasting).
\<close>

definition full_steps :: "nat list \<Rightarrow> int list \<Rightarrow> int list" where
  "full_steps shp steps = steps @ replicate (length shp - length steps) 1"

definition strided :: "int list \<Rightarrow> 'a ndarray \<Rightarrow> error + 'a ndarray" where
  "strided steps a =
     (if length (shape a) < length steps then Inl IndexError
      else if list_ex (\<lambda>s. s = 0) steps then Inl (ValueError ''slice step cannot be zero'' [])
      else Inr (NdArray (map2 slice_len (shape a) (full_steps (shape a) steps))
                  (\<lambda>idx. elem a (map (\<lambda>(n, s, i). slice_pos n s i)
                                    (zip (shape a) (zip (full_steps (shape a) steps) idx))))))"

definition strided_set :: "int list \<Rightarrow> 'a ndarray \<Rightarrow> 'a ndarray \<Rightarrow> error + 'a ndarray" where
  "strided_set steps base src =
     (if length (shape base) < length steps then Inl IndexError
      else if list_ex (\<lambda>s. s = 0) steps then Inl (ValueError ''slice step cannot be zero'' [])
      else if map2 slice_len (shape base) (full_steps (shape base) steps) \<noteq> shape src
      then Inl (ValueError ''could not broadcast input array'' [])
      else Inr (NdArray (shape base)
                  (\<lambda>idx. case those (map (\<lambda>(n, s, p). slice_inv n s p)
                                       (zip (shape base)
                                          (zip (full_steps (shape base) steps) idx))) of
                            Some i \<Rightarrow> elem src i
                          | None \<Rightarrow> elem base idx)))"

text \<open>
  A slice \<^verbatim>\<open>a[lo:hi]\<close> of an axis of length \<open>n\<close>: Python counts a negative bound from the
  end and clips both bounds to the axis.
\<close>

definition py_clip :: "nat \<Rightarrow> int \<Rightarrow> nat" where
  "py_clip n i = (if i < 0 then nat (max 0 (int n + i)) else min (nat i) n)"

definition full_ranges :: "nat list \<Rightarrow> (int \<times> int) list \<Rightarrow> (int \<times> int) list" where
  "full_ranges shp ranges = ranges @ map (\<lambda>n. (0, int n)) (drop (length ranges) shp)"

definition range_shape :: "nat list \<Rightarrow> (int \<times> int) list \<Rightarrow> nat list" where
  "range_shape shp ranges =
     map2 (\<lambda>n (lo, hi). py_clip n hi - py_clip n lo) shp (full_ranges shp ranges)"

definition range_lows :: "nat list \<Rightarrow> (int \<times> int) list \<Rightarrow> nat list" where
  "range_lows shp ranges = map2 (\<lambda>n (lo, hi). py_clip n lo) shp (full_ranges shp ranges)"

text \<open>
  \<^verbatim>\<open>a[lo0:hi0, lo1:hi1, ...]\<close> with a range for each leading axis of \<open>a\<close>: reading it,
  assigning an array of its shape to it, and adding one to it in place.
\<close>

definition ranged :: "(int \<times> int) list \<Rightarrow> 'a ndarray \<Rightarrow> error + 'a ndarray" where
  "ranged ranges a =
     (if length (shape a) < length ranges then Inl IndexError
      else Inr (NdArray (range_shape (shape a) ranges)
                  (\<lambda>idx. elem a (map2 (+) (range_lows (shape a) ranges) idx))))"

definition in_range :: "nat list \<Rightarrow> nat list \<Rightarrow> nat list \<Rightarrow> bool" where
  "in_range lows lens idx = list_all (\<lambda>(lo, n, i). lo \<le> i \<and> i < lo + n) (zip lows (zip lens idx))"

definition ranged_set :: "(int \<times> int) list \<Rightarrow> 'a ndarray \<Rightarrow> 'a ndarray \<Rightarrow> error + 'a ndarray" where
  "ranged_set ranges base src =
     (if length (shape base) < length ranges then Inl IndexError
      else if range_shape (shape base) ranges \<noteq> shape src
      then Inl (ValueError ''could not broadcast input array'' [])
      else Inr (NdArray (shape base)
                  (\<lambda>idx. if in_range (range_lows (shape base) ranges) (shape src) idx
                         then elem src (map2 (-) idx (range_lows (shape base) ranges))
                         else elem base idx)))"

definition ranged_add ::
  "(int \<times> int) list \<Rightarrow> 'a::plus ndarray \<Rightarrow> 'a ndarray \<Rightarrow> error + 'a ndarray" where
  "ranged_add ranges base src =
     (if length (shape base) < length ranges then Inl IndexError
      else if range_shape (shape base) ranges \<noteq> shape src
      then Inl (ValueError ''operands could not be broadcast together'' [])
      else Inr (NdArray (shape base)
                  (\<lambda>idx. if in_range (range_lows (shape base) ranges) (shape src) idx
                         then elem base idx
                                + elem src (map2 (-) idx (range_lows (shape base) ranges))
                         else elem base idx)))"

text \<open>
  \<^verbatim>\<open>a[i, j, ...]\<close>: the array at a tuple of leading indices, an IndexError outside the
  shape; and \<^verbatim>\<open>a[i, j, ...] += x\<close>, \<^verbatim>\<open>a[i, j, ...] = x\<close>.
\<close>

definition prefix_ok :: "nat list \<Rightarrow> nat list \<Rightarrow> bool" where
  "prefix_ok shp pre = (length pre \<le> length shp \<and> list_all2 (\<lambda>i n. i < n) pre (take (length pre) shp))"

definition sub_nd :: "nat list \<Rightarrow> 'a ndarray \<Rightarrow> error + 'a ndarray" where
  "sub_nd pre a =
     (if \<not> prefix_ok (shape a) pre then Inl IndexError
      else Inr (NdArray (drop (length pre) (shape a)) (\<lambda>idx. elem a (pre @ idx))))"

definition sub_add :: "nat list \<Rightarrow> 'a::plus ndarray \<Rightarrow> 'a ndarray \<Rightarrow> error + 'a ndarray" where
  "sub_add pre x a =
     (if \<not> prefix_ok (shape a) pre then Inl IndexError
      else if drop (length pre) (shape a) \<noteq> shape x
      then Inl (ValueError ''operands could not be broadcast together'' [])
      else Inr (NdArray (shape a)
                  (\<lambda>idx. if take (length pre) idx = pre
                         then elem a idx + elem x (drop (length pre) idx)
                         else elem a idx)))"

definition sub_set :: "nat list \<Rightarrow> 'a ndarray \<Rightarrow> 'a ndarray \<Rightarrow> error + 'a ndarray" where
  "sub_set pre x a =
     (if \<not> prefix_ok (shape a) pre then Inl IndexError
      else if drop (length pre) (shape a) \<noteq> shape x
      then Inl (ValueError ''could not broadcast input array'' [])
      else Inr (NdArray (shape a)
                  (\<lambda>idx. if take (length pre) idx = pre then elem x (drop (length pre) idx)
                         else elem a idx)))"

text \<open>\<^verbatim>\<open>a.reshape(newshape)\<close> in row-major order: a ValueError when the sizes differ.\<close>

definition reshape_nd :: "nat list \<Rightarrow> 'a ndarray \<Rightarrow> error + 'a ndarray" where
  "reshape_nd newshape a =
     (if prod_list newshape \<noteq> prod_list (shape a)
      then Inl (ValueError ''cannot reshape array'' [])
      else Inr (NdArray newshape (\<lambda>idx. elem a (unravel (shape a) (ravel newshape idx)))))"

text \<open>
  The discrete convolution of scipy (\<^verbatim>\<open>_convolve2d\<close> with \<open>flip = 1\<close>, boundary \<open>fill\<close> and
  fill value 0, and \<^verbatim>\<open>convolve\<close>), which is not part of this repository: the value of the
  output at \<open>idx\<close> is the sum over the indices \<open>u\<close> of \<open>in2\<close> of
  \<open>in1[idx + off - u] * in2[u]\<close>, where \<open>in1\<close> is 0 outside its shape; in mode \<open>full\<close> the
  offset is 0 and the output has the size \<open>n1 + n2 - 1\<close> on an axis, in mode \<open>valid\<close> the
  offset is \<open>n2 - 1\<close> and the size \<open>n1 - n2 + 1\<close>.
\<close>

definition convolve_nd :: "bool \<Rightarrow> 'a::comm_semiring_0 ndarray \<Rightarrow> 'a ndarray \<Rightarrow> 'a ndarray" where
  "convolve_nd full in1 in2 =
     NdArray (map2 (\<lambda>n1 n2. if full then n1 + n2 - 1 else n1 + 1 - n2) (shape in1) (shape in2))
       (\<lambda>idx. sum_idx (shape in2)
          (\<lambda>u. let pos = map (\<lambda>(i, n2, v). (if full then i else i + n2 - 1, v))
                           (zip idx (zip (shape in2) u))
               in if list_all2 (\<lambda>(p, v) n1. v \<le> p \<and> p - v < n1) pos (shape in1)
                  then elem in1 (map (\<lambda>(p, v). p - v) pos) * elem in2 u
                  else 0))"

text \<open>
  \<^verbatim>\<open>_convolve2d\<close> refuses, in mode \<open>valid\<close>, an output of negative size;
  \<^verbatim>\<open>convolve\<close> refuses a second input larger than the first on some axis (it swaps them
  when it is larger on every axis, and the result then has another shape than the caller
  expects).
\<close>

definition convolve2d :: "string \<Rightarrow> 'a::comm_semiring_0 ndarray \<Rightarrow> 'a ndarray \<Rightarrow> error + 'a ndarray" where
  "convolve2d mode in1 in2 =
     (if mode = ''valid'' \<and> list_ex (\<lambda>(n1, n2). n1 + 1 < n2) (zip (shape in1) (shape in2))
      then Inl (ValueError ''no part of the output is valid'' [])
      else Inr (convolve_nd (mode = ''full'') in1 in2))"

definition convolve :: "'a::comm_semiring_0 ndarray \<Rightarrow> 'a ndarray \<Rightarrow> string \<Rightarrow> error + 'a ndarray" where
  "convolve in1 in2 mode =
     (if mode = ''valid'' \<and> list_ex (\<lambda>(n1, n2). n1 < n2) (zip (shape in1) (shape in2))
      then Inl (ValueError ''For valid mode, one must be at least as large as the other in every dimension'' [])
      else Inr (convolve_nd (mode = ''full'') in1 in2))"

text \<open>A loop whose body may raise: the first exception ends it.\<close>

fun foldM_e :: "('b \<Rightarrow> 'a \<Rightarrow> error + 'a) \<Rightarrow> 'b list \<Rightarrow> 'a \<Rightarrow> error + 'a" where
  "foldM_e f [] a = Inr a"
| "foldM_e f (x # xs) a = bind_e (f x a) (foldM_e f xs)"

text \<open>The array \<^verbatim>\<open>a[i, j, ...]\<close> under two leading indices inside the shape.\<close>

definition slab :: "nat \<Rightarrow> nat \<Rightarrow> 'a ndarray \<Rightarrow> 'a ndarray" where
  "slab i j a = NdArray (drop 2 (shape a)) (\<lambda>idx. elem a (i # j # idx))"

text \<open>
  \<^verbatim>\<open>a[i, j]\<close> for an array of two axes, a scalar; \<^verbatim>\<open>v * a\<close> for a scalar \<open>v\<close>;
  \<^verbatim>\<open>np.sum(np.multiply(a, b))\<close> for two arrays of one shape; and \<^verbatim>\<open>a[i, j] = v\<close>, which
  gives the scalar \<open>v\<close> to every entry under the leading indices.
\<close>

definition scalar_at :: "nat list \<Rightarrow> 'a ndarray \<Rightarrow> error + 'a" where
  "scalar_at pre a = (if in_bounds (shape a) pre then Inr (elem a pre) else Inl IndexError)"

definition scale :: "'a::times \<Rightarrow> 'a ndarray \<Rightarrow> 'a ndarray" where
  "scale v a = NdArray (shape a) (\<lambda>idx. v * elem a idx)"

definition multiply_sum :: "'a::comm_semiring_0 ndarray \<Rightarrow> 'a ndarray \<Rightarrow> error + 'a" where
  "multiply_sum a b =
     (if shape a \<noteq> shape b then Inl (ValueError ''operands could not be broadcast together'' [])
      else Inr (inner_nd a b))"

definition fill_at :: "nat list \<Rightarrow> 'a \<Rightarrow> 'a ndarray \<Rightarrow> error + 'a ndarray" where
  "fill_at pre v a =
     (if \<not> prefix_ok (shape a) pre then Inl IndexError
      else Inr (NdArray (shape a) (\<lambda>idx. if take (length pre) idx = pre then v else elem a idx)))"

section \<open>The reference convolution\<close>

text \<open>A shape whose entries are all known, as \<^verbatim>\<open>np.zeros\<close> needs it.\<close>

definition known_shape :: "int option list \<Rightarrow> error + int list" where
  "known_shape sh =
     (case those sh of
        Some ns \<Rightarrow> Inr ns
      | None \<Rightarrow> Inl (TypeError ''NoneType object cannot be interpreted as an integer''))"

definition some_shape :: "nat list \<Rightarrow> int option list" where
  "some_shape shp = map (\<lambda>n. Some (int n)) shp"

text \<open>
  The sizes of the dilated kernel on the last \<open>convdim\<close> axes,
  \<^verbatim>\<open>(kern.shape[-convdim + i] - 1) * dilation[i] + 1\<close>.
\<close>

definition dil_sizes :: "nat \<Rightarrow> nat list \<Rightarrow> int list \<Rightarrow> error + int list" where
  "dil_sizes cdim kshape dilation =
     (if length kshape < cdim then Inl IndexError
      else Inr (map2 (\<lambda>k d. (int k - 1) * d + 1) (drop (length kshape - cdim) kshape) dilation))"

text \<open>\<^verbatim>\<open>BaseAbstractConv.unshared2d\<close>, lines 2389 to 2423.\<close>

definition unshared2d ::
  "conv_params \<Rightarrow> 'a::comm_semiring_0 ndarray \<Rightarrow> 'a ndarray \<Rightarrow> int list \<Rightarrow> string
     \<Rightarrow> error + 'a ndarray" where
  "unshared2d op inp kern out_shape direction =
     (if convdim op \<noteq> 2
      then Inl (NotImplementedError ''Unshared convolution not implemented for {convdim}D'')
      else bind_e (np_zeros out_shape) (\<lambda>out0.
        if direction = ''forward''
        then bind_e (nth_e out_shape 0) (\<lambda>os0.
             foldM_e (\<lambda>row out.
               bind_e (nth_e out_shape 1) (\<lambda>os1.
               foldM_e (\<lambda>col out.
                 bind_e (nth_e (shape kern) 2) (\<lambda>k2.
                 bind_e (nth_e (shape kern) 3) (\<lambda>k3.
                 bind_e (ranged [(int row, int row + int k2), (int col, int col + int k3)] inp)
                   (\<lambda>win.
                 bind_e (sub_nd [row, col] kern) (\<lambda>ks.
                 bind_e (strided [- 1, - 1] ks) (\<lambda>kf.
                 bind_e (multiply_sum win kf) (\<lambda>v. fill_at [row, col] v out)))))))
                 [0..<nat os1] out))
               [0..<nat os0] out0)
        else if direction = ''backprop weights''
        then bind_e (nth_e out_shape 0) (\<lambda>os0.
             foldM_e (\<lambda>row out.
               bind_e (nth_e out_shape 1) (\<lambda>os1.
               foldM_e (\<lambda>col out.
                 bind_e (scalar_at [row, col] kern) (\<lambda>kv.
                 bind_e (nth_e out_shape 2) (\<lambda>os2.
                 bind_e (nth_e out_shape 3) (\<lambda>os3.
                 bind_e (ranged [(int row, int row + os2), (int col, int col + os3)] inp)
                   (\<lambda>win. sub_set [row, col] (scale kv win) out)))))
                 [0..<nat os1] out))
               [0..<nat os0] out0)
        else if direction = ''backprop inputs''
        then bind_e (nth_e (shape kern) 0) (\<lambda>k0.
             foldM_e (\<lambda>row out.
               bind_e (nth_e (shape kern) 1) (\<lambda>k1.
               foldM_e (\<lambda>col out.
                 bind_e (nth_e (shape kern) 2) (\<lambda>k2.
                 bind_e (nth_e (shape kern) 3) (\<lambda>k3.
                 bind_e (scalar_at [row, col] inp) (\<lambda>iv.
                 bind_e (sub_nd [row, col] kern) (\<lambda>ks.
                 bind_e (strided [- 1, - 1] ks) (\<lambda>kf.
                   ranged_add [(int row, int row + int k2), (int col, int col + int k3)] out
                     (scale iv kf)))))))
                 [0..<k1] out))
               [0..<k0] out0)
        else Inl (ValueError ''unshared2d: invalid value {direction} for direction'' [])))"

text \<open>
  The shape of the output of \<^verbatim>\<open>BaseAbstractConv.conv\<close>, lines 2292 to 2311: a shape of
  six axes for the unshared gradient of the weights, the forward output shape with unit
  subsampling otherwise.
\<close>

definition conv_out_shape ::
  "nat \<Rightarrow> nat list \<Rightarrow> nat list \<Rightarrow> string \<Rightarrow> int list \<Rightarrow> bool \<Rightarrow> string \<Rightarrow> error + int list" where
  "conv_out_shape cdim ishape kshape mode dilation unsh direction =
     (if unsh \<and> direction = ''backprop weights''
      then (if mode \<noteq> ''valid''
            then Inl (ValueError ''conv mode for unshared backprop wrt weights must be valid'' [])
            else bind_e (nth_e ishape 0) (\<lambda>i0.
                 bind_e (nth_e kshape 0) (\<lambda>k0.
                 bind_e (nth_e kshape 2) (\<lambda>k2.
                 bind_e (nth_e kshape 3) (\<lambda>k3.
                 bind_e (nth_e ishape 2) (\<lambda>i2.
                 bind_e (nth_e ishape 3) (\<lambda>i3.
                   Inr [int i0, int k0, int k2, int k3,
                        int i2 - int k2 + 1, int i3 - int k3 + 1])))))))
      else bind_e (get_conv_output_shape (some_shape ishape) (some_shape kshape) (BMStr mode)
                     (replicate cdim 1) (Some dilation)) known_shape)"

text \<open>
  The dilated kernel of \<^verbatim>\<open>BaseAbstractConv.conv\<close>, lines 2313 to 2322: zeros of the
  dilated shape, the kernel assigned to \<^verbatim>\<open>dilated_kern[:, ..., ::d0, ::d1]\<close>.
\<close>

definition dilated_kernel :: "nat \<Rightarrow> int list \<Rightarrow> 'a::zero ndarray \<Rightarrow> error + 'a ndarray" where
  "dilated_kernel cdim dilation kern =
     bind_e (dil_sizes cdim (shape kern) dilation) (\<lambda>dil_spatial.
     bind_e (np_zeros (map int (take (length (shape kern) - cdim) (shape kern)) @ dil_spatial))
       (\<lambda>dk0.
       strided_set (replicate (length (shape kern) - cdim) 1 @ dilation) dk0 kern))"

text \<open>
  The four nested loops of \<^verbatim>\<open>BaseAbstractConv.conv\<close>, lines 2343 to 2384: for each batch
  entry, group, output channel of the group and input channel of the group,
  \<^verbatim>\<open>out[b, g * output_channel_offset + n, ...] += body(img[b, g * input_channel_offset + im0, ...],
  dilated_kern[g * output_channel_offset + n, im0, ...])\<close>.
\<close>

definition conv_step ::
  "('a::plus ndarray \<Rightarrow> 'a ndarray \<Rightarrow> error + 'a ndarray) \<Rightarrow> 'a ndarray \<Rightarrow> 'a ndarray
     \<Rightarrow> nat \<Rightarrow> nat \<Rightarrow> nat \<Rightarrow> nat \<Rightarrow> nat \<Rightarrow> nat \<Rightarrow> 'a ndarray \<Rightarrow> error + 'a ndarray" where
  "conv_step body img dilated_kern input_channel_offset output_channel_offset b g n im0 out =
     bind_e (sub_nd [b, g * output_channel_offset + n] out) (\<lambda>_.
     bind_e (sub_nd [b, g * input_channel_offset + im0] img) (\<lambda>img_c.
     bind_e (sub_nd [g * output_channel_offset + n, im0] dilated_kern) (\<lambda>kern_c.
     bind_e (body img_c kern_c) (\<lambda>c.
       sub_add [b, g * output_channel_offset + n] c out))))"

definition conv_loops ::
  "('a::plus ndarray \<Rightarrow> 'a ndarray \<Rightarrow> error + 'a ndarray) \<Rightarrow> 'a ndarray \<Rightarrow> 'a ndarray
     \<Rightarrow> nat \<Rightarrow> nat \<Rightarrow> nat \<Rightarrow> nat \<Rightarrow> 'a ndarray \<Rightarrow> error + 'a ndarray" where
  "conv_loops body img dilated_kern batch groups input_channel_offset output_channel_offset out0 =
     foldM_e (\<lambda>b. foldM_e (\<lambda>g. foldM_e (\<lambda>n. foldM_e
         (conv_step body img dilated_kern input_channel_offset output_channel_offset b g n)
       [0..<input_channel_offset]) [0..<output_channel_offset]) [0..<groups]) [0..<batch] out0"

text \<open>
  \<^verbatim>\<open>BaseAbstractConv.conv\<close>, lines 2269 to 2387. The argument \<open>dilation\<close> is a tuple (the
  default 1 of the source stands for the tuple of ones).
\<close>

definition conv ::
  "conv_params \<Rightarrow> 'a::comm_semiring_0 ndarray \<Rightarrow> 'a ndarray \<Rightarrow> string \<Rightarrow> int list \<Rightarrow> int \<Rightarrow> bool
     \<Rightarrow> string \<Rightarrow> error + 'a ndarray" where
  "conv op img kern mode dilation groups unsh direction =
     (if mode \<noteq> ''valid'' \<and> mode \<noteq> ''full''
      then Inl (ValueError ''invalid mode {mode}, which must be either valid or full'' [])
      else if length dilation \<noteq> convdim op
      then Inl (ValueError ''invalid dilation {dilation}, expected {convdim} values'' [])
      else
        bind_e (conv_out_shape (convdim op) (shape img) (shape kern) mode dilation unsh direction)
          (\<lambda>out_shape.
        bind_e (dilated_kernel (convdim op) dilation kern) (\<lambda>dilated_kern.
        bind_e (np_zeros out_shape) (\<lambda>out0.
        bind_e (nth_e (shape img) 1) (\<lambda>img1.
        if num_groups op = 0 then Inl ZeroDivisionError
        else if int img1 mod num_groups op \<noteq> 0
        then Inl (ValueError ''number of input channels must be divible by num_groups'' [])
        else bind_e (nth_e (shape kern) 0) (\<lambda>kern0.
        if int kern0 mod num_groups op \<noteq> 0
        then Inl (ValueError ''number of filters must be divisible by num_groups'' [])
        else if groups = 0 then Inl ZeroDivisionError
        else bind_e (nth_e (shape kern) 1) (\<lambda>kern1.
        if int img1 div groups \<noteq> int kern1
        then Inl (ValueError
          ''the number of input channels in the kernel should specify the number of channels of 1 group'' [])
        else
          let input_channel_offset = nat (int img1 div num_groups op);
              output_channel_offset = nat (int kern0 div num_groups op);
              loops = (\<lambda>body.
                bind_e (nth_e (shape img) 0) (\<lambda>img0.
                  conv_loops body img dilated_kern img0 (nat (num_groups op))
                    input_channel_offset output_channel_offset out0))
          in if convdim op = 2
             then (if unsh
                   then loops (\<lambda>img_c kern_c.
                          unshared2d op img_c kern_c (drop 2 out_shape) direction)
                   else loops (\<lambda>img_c kern_c. convolve2d mode img_c kern_c))
             else if convdim op = 3
             then (if unsh
                   then Inl (NotImplementedError ''Unshared 3D convolution is not implemented'')
                   else loops (\<lambda>img_c kern_c. convolve img_c kern_c mode))
             else Inl (NotImplementedError ''only 2D and 3D convolution are implemented''))))))))"

section \<open>The three operators on concrete arrays\<close>

text \<open>
  The zero padding of the image in \<^verbatim>\<open>perform\<close> (lines 2514 to 2537 and 2851 to 2873): an
  array of zeros of the padded shape, the image assigned to
  \<^verbatim>\<open>new_img[:, :, pad_l : n + pad_l, ...]\<close>.
\<close>

definition pad_image :: "nat \<Rightarrow> (int \<times> int) list \<Rightarrow> 'a::zero ndarray \<Rightarrow> error + 'a ndarray" where
  "pad_image cdim pad img =
     bind_e (nth_e (shape img) 0) (\<lambda>n0.
     bind_e (nth_e (shape img) 1) (\<lambda>n1.
     bind_e (sequence_e
               (map (\<lambda>i. bind_e (nth_e (shape img) (i + 2)) (\<lambda>n.
                          bind_e (nth_e pad i) (\<lambda>(pl, pr). Inr ((pl, int n + pl), int n + pl + pr))))
                  [0..<cdim])) (\<lambda>axes.
     bind_e (np_zeros (int n0 # int n1 # map snd axes)) (\<lambda>new_img.
       ranged_set ((0, int n0) # (0, int n1) # map fst axes) new_img img))))"

text \<open>
  The spatial axes of an array reversed, \<^verbatim>\<open>a[:, ..., ::-1, ::-1]\<close>, and taken with steps,
  \<^verbatim>\<open>a[:, ..., ::s0, ::s1]\<close>: the last \<open>convdim\<close> axes.
\<close>

definition flip_spatial :: "nat \<Rightarrow> 'a ndarray \<Rightarrow> error + 'a ndarray" where
  "flip_spatial cdim a = strided (replicate (length (shape a) - cdim) 1 @ replicate cdim (- 1)) a"

definition step_spatial :: "nat \<Rightarrow> int list \<Rightarrow> 'a ndarray \<Rightarrow> error + 'a ndarray" where
  "step_spatial cdim steps a = strided (replicate (length (shape a) - cdim) 1 @ steps) a"

text \<open>
  The top gradient with the subsampling undone (lines 2875 to 2892 and 3237 to 3257): an array
  of zeros of the shape before subsampling, the top gradient assigned to
  \<^verbatim>\<open>new_topgrad[:, :, ::s0, ::s1]\<close>.
\<close>

definition expand_topgrad :: "int list \<Rightarrow> int list \<Rightarrow> 'a::zero ndarray \<Rightarrow> error + 'a ndarray" where
  "expand_topgrad spatial steps topgrad =
     bind_e (nth_e (shape topgrad) 0) (\<lambda>n0.
     bind_e (nth_e (shape topgrad) 1) (\<lambda>n1.
     bind_e (np_zeros (int n0 # int n1 # spatial)) (\<lambda>new_topgrad.
       strided_set (1 # 1 # steps) new_topgrad topgrad)))"

text \<open>
  The kernel of an unshared convolution with its regions expanded for the subsampling (lines
  2562 to 2576 and 3261 to 3273): zeros of the shape
  \<^verbatim>\<open>kern.shape[:1] + regions + kern.shape[1 + convdim:]\<close>, the kernel assigned to
  \<^verbatim>\<open>exp_kern[:, ::s0, ::s1, :, :, :]\<close>.
\<close>

definition expand_kern :: "nat \<Rightarrow> int list \<Rightarrow> int list \<Rightarrow> 'a::zero ndarray \<Rightarrow> error + 'a ndarray" where
  "expand_kern cdim regions steps kern =
     bind_e (np_zeros (map int (take 1 (shape kern)) @ regions
                       @ map int (drop (1 + cdim) (shape kern)))) (\<lambda>exp_kern.
       strided_set (1 # steps @ replicate (cdim + 1) 1) exp_kern kern)"

text \<open>
  \<^verbatim>\<open>correct_for_groups\<close> of \<^verbatim>\<open>AbstractConv_gradWeights.perform\<close>, lines 2898 to 2904.
\<close>

definition correct_for_groups_weights ::
  "conv_params \<Rightarrow> 'a ndarray \<Rightarrow> error + 'a ndarray" where
  "correct_for_groups_weights op mat =
     (if num_groups op = 0 then Inl ZeroDivisionError
      else
        let mshp0 = nat (int (shape mat ! 0) div num_groups op);
            mshp1 = nat (int (shape mat ! 1) * num_groups op)
        in bind_e (reshape_nd (nat (num_groups op) # mshp0 # drop 1 (shape mat)) mat) (\<lambda>mat1.
           let mat2 = transpose_nd ([1, 0, 2] @ [3..<3 + convdim op]) mat1
           in reshape_nd (mshp0 # mshp1 # drop (length (shape mat2) - convdim op) (shape mat2))
                mat2))"

text \<open>
  \<^verbatim>\<open>correct_for_groups\<close> of \<^verbatim>\<open>AbstractConv_gradInputs.perform\<close>, lines 3275 to 3297.
\<close>

definition correct_for_groups_inputs ::
  "conv_params \<Rightarrow> 'a ndarray \<Rightarrow> error + 'a ndarray" where
  "correct_for_groups_inputs op mat =
     (if num_groups op = 0 then Inl ZeroDivisionError
      else
        let cd = convdim op;
            mshp0 = nat (int (shape mat ! 0) div num_groups op);
            mshp1 = nat (int (shape mat ! (length (shape mat) - cd - 1)) * num_groups op)
        in bind_e (reshape_nd (nat (num_groups op) # mshp0 # drop 1 (shape mat)) mat) (\<lambda>mat1.
           if unshared op
           then
             let mat2 = transpose_nd ([1..<2 + cd] @ [0] @ [2 + cd..<length (shape mat1)]) mat1
             in reshape_nd (mshp0 # take cd (drop 1 (shape mat2)) @ [mshp1]
                            @ drop (length (shape mat2) - cd) (shape mat2)) mat2
           else
             let mat2 = transpose_nd ([1, 0, 2] @ [3..<3 + cd]) mat1
             in reshape_nd (mshp0 # mshp1 # drop (length (shape mat2) - cd) (shape mat2)) mat2))"

text \<open>A step of a \<^verbatim>\<open>perform\<close> that is taken under a condition only.\<close>

definition when_e :: "bool \<Rightarrow> ('a \<Rightarrow> error + 'a) \<Rightarrow> 'a \<Rightarrow> error + 'a" where
  "when_e c f x = (if c then f x else Inr x)"

definition any_pad :: "(int \<times> int) list \<Rightarrow> bool" where
  "any_pad pad = list_ex (\<lambda>p. p \<noteq> (0, 0)) pad"

definition any_above_1 :: "int list \<Rightarrow> bool" where
  "any_above_1 steps = list_ex (\<lambda>s. s > 1) steps"

text \<open>
  The kernel of an unshared forward convolution, lines 2544 to 2585: its regions must be
  those of the output, they are expanded when the output is subsampled, and the axes go from
  \<open>(filters, rows, cols, channels, kH, kW)\<close> to \<open>(filters, channels, rows, cols, kH, kW)\<close>.
\<close>

definition unshared_forward_kernel ::
  "conv_params \<Rightarrow> border_mode \<Rightarrow> nat list \<Rightarrow> 'a::zero ndarray \<Rightarrow> error + 'a ndarray" where
  "unshared_forward_kernel op mode ishape kern1 =
     (let cd = convdim op in
      bind_e (get_conv_output_shape (some_shape ishape) (some_shape (shape kern1))
                mode (subsample op) (Some (filter_dilation op))) (\<lambda>out_shape.
      if some_shape (take cd (drop 1 (shape kern1))) \<noteq> take cd (drop 2 out_shape)
      then Inl (ValueError ''Kernel shape {} does not match computed output size {}''
                  [some_shape (take cd (drop 1 (shape kern1))), take cd (drop 2 out_shape)])
      else
        bind_e
          (when_e (any_above_1 (subsample op))
             (\<lambda>kern1.
                bind_e (get_conv_output_shape (some_shape ishape) (some_shape (shape kern1))
                          mode (replicate cd 1) (Some (filter_dilation op))) (\<lambda>out_shape1.
                bind_e (known_shape (take cd (drop 2 out_shape1))) (\<lambda>regions.
                  expand_kern cd regions (subsample op) kern1)))
             kern1) (\<lambda>kern2.
        Inr (transpose_nd ([0, 1 + cd] @ [1..<1 + cd] @ [2 + cd..<length (shape kern2)])
               kern2))))"

text \<open>
  \<^verbatim>\<open>AbstractConv.perform\<close>, lines 2497 to 2602, on the inputs of a node: the ranks of the
  inputs are those \<^verbatim>\<open>make_node\<close> (lines 2465 to 2475) has checked.
\<close>

definition AbstractConv_perform ::
  "conv_params \<Rightarrow> 'a::comm_semiring_0 ndarray \<Rightarrow> 'a ndarray \<Rightarrow> error + 'a ndarray" where
  "AbstractConv_perform op img0 kern0 =
     (let cd = convdim op in
      if length (shape img0) \<noteq> 2 + cd then Inl (TypeError ''img must be {2 + convdim}D tensor'')
      else if unshared op \<and> length (shape kern0) \<noteq> 2 + 2 * cd
      then Inl (TypeError ''kern must be {2 + 2 * convdim}D tensor for unshared convolution'')
      else if \<not> unshared op \<and> length (shape kern0) \<noteq> 2 + cd
      then Inl (TypeError ''kern must be {2 + convdim}D tensor'')
      else
        bind_e (dil_sizes cd (shape kern0) (filter_dilation op)) (\<lambda>dil_kernshp.
        if unshared op \<and> cd \<noteq> 2
        then Inl (NotImplementedError ''Unshared convolution not implemented for {convdim}D'')
        else
          bind_e (border_mode_to_pad (border_mode op) cd dil_kernshp) (\<lambda>pad.
          bind_e (when_e (any_pad pad) (pad_image cd pad) img0) (\<lambda>img.
          let mode = (if any_pad pad then BMStr ''valid'' else border_mode op) in
          bind_e (when_e (\<not> filter_flip op) (flip_spatial cd) kern0) (\<lambda>kern1.
          bind_e (when_e (unshared op) (unshared_forward_kernel op mode (shape img)) kern1)
            (\<lambda>kern.
          bind_e (conv op img kern ''valid'' (filter_dilation op) (num_groups op) (unshared op)
                    ''forward'') (\<lambda>conv_out.
            strided (1 # 1 # subsample op) conv_out)))))))"

text \<open>
  The kernel gradient of \<^verbatim>\<open>AbstractConv_gradWeights.perform\<close>, lines 2909 to 2947, from
  the image and the top gradient with the batch and channel axes swapped: one convolution in
  mode \<open>valid\<close>, the default dilation 1, and the axes of the result back in the order of a
  kernel.
\<close>

definition gradWeights_kernel ::
  "conv_params \<Rightarrow> 'a::comm_semiring_0 ndarray \<Rightarrow> 'a ndarray \<Rightarrow> error + 'a ndarray" where
  "gradWeights_kernel op img topgrad2 =
     (let cd = convdim op in
      if unshared op
      then
        bind_e (conv op img topgrad2 ''valid'' (replicate cd 1) (num_groups op) True
                  ''backprop weights'') (\<lambda>kern.
        bind_e (when_e (any_above_1 (subsample op))
                  (strided ([1, 1] @ subsample op @ replicate cd 1)) kern) (\<lambda>kern'.
          Inr (transpose_nd ([1] @ [2..<cd + 2] @ [0] @ [cd + 2..<length (shape kern')]) kern')))
      else
        bind_e (flip_spatial cd topgrad2) (\<lambda>topgrad.
        bind_e (conv op img topgrad ''valid'' (replicate cd 1) (num_groups op) False
                  ''forward'') (\<lambda>kern.
          Inr (transpose_nd ([1, 0] @ [2..<cd + 2]) kern))))"

text \<open>
  \<^verbatim>\<open>AbstractConv_gradWeights.perform\<close>, lines 2834 to 2960, on the inputs of a node
  (\<^verbatim>\<open>make_node\<close>, lines 2806 to 2809, has checked the ranks); \<open>kshape\<close> is the input
  \<open>shape\<close>, the spatial shape of the kernel.
\<close>

definition AbstractConv_gradWeights_perform ::
  "conv_params \<Rightarrow> 'a::comm_semiring_0 ndarray \<Rightarrow> 'a ndarray \<Rightarrow> int list \<Rightarrow> error + 'a ndarray" where
  "AbstractConv_gradWeights_perform op img0 topgrad0 kshape =
     (let cd = convdim op in
      if length (shape img0) \<noteq> 2 + cd then Inl (TypeError ''img must be {2 + convdim}D tensor'')
      else if length (shape topgrad0) \<noteq> 2 + cd
      then Inl (TypeError ''topgrad must be {2 + convdim}D tensor'')
      else if unshared op \<and> cd \<noteq> 2
      then Inl (NotImplementedError ''Unshared convolution not implemented for {convdim}D'')
      else
        bind_e (sequence_e (map (\<lambda>i. bind_e (nth_e kshape i) (\<lambda>k.
                                      Inr ((k - 1) * (filter_dilation op ! i) + 1)))
                              [0..<cd])) (\<lambda>dil_shape.
        bind_e (border_mode_to_pad (border_mode op) cd dil_shape) (\<lambda>pad.
        bind_e (when_e (any_pad pad) (pad_image cd pad) img0) (\<lambda>img1.
        bind_e (when_e (any_above_1 (subsample op))
                  (expand_topgrad
                     (map (\<lambda>i. int (shape img1 ! (i + 2)) - dil_shape ! i + 1) [0..<cd])
                     (subsample op)) topgrad0) (\<lambda>topgrad1.
        let axes_order = [1, 0] @ [2..<cd + 2];
            topgrad2 = transpose_nd axes_order topgrad1;
            img2 = transpose_nd axes_order img1
        in
        bind_e (when_e (num_groups op > 1) (correct_for_groups_weights op) img2) (\<lambda>img.
        bind_e (gradWeights_kernel op img topgrad2) (\<lambda>kern1.
        bind_e (when_e (any_above_1 (filter_dilation op))
                  (step_spatial cd (filter_dilation op)) kern1) (\<lambda>kern2.
          when_e (filter_flip op) (flip_spatial cd) kern2))))))))"

text \<open>
  The forward output shape that \<^verbatim>\<open>AbstractConv_gradInputs.perform\<close> recomputes, lines
  3220 to 3230: the image shape is \<open>imshp\<close> where it is known and
  \<^verbatim>\<open>[topgrad.shape[0], kern.shape[-convdim - 1]] + shape\<close> elsewhere.
\<close>

definition gradInputs_expected_shape ::
  "conv_params \<Rightarrow> 'a ndarray \<Rightarrow> 'a ndarray \<Rightarrow> int list \<Rightarrow> error + int option list" where
  "gradInputs_expected_shape op kern0 topgrad0 ishape =
     (let cd = convdim op in
      bind_e (sequence_e (map (nth_e ishape) [0..<cd])) (\<lambda>spatial.
      bind_e (replace_known (imshp op)
                (int (shape topgrad0 ! 0)
                 # int (shape kern0 ! (length (shape kern0) - cd - 1)) # spatial) (2 + cd))
        (\<lambda>imshp'.
        get_conv_output_shape imshp' (some_shape (shape kern0)) (border_mode op)
          (subsample op) (Some (filter_dilation op)))))"

text \<open>
  The top gradient and the kernel of \<^verbatim>\<open>AbstractConv_gradInputs.perform\<close> with the
  subsampling undone, lines 3237 to 3273.
\<close>

definition gradInputs_expand ::
  "conv_params \<Rightarrow> (int \<times> int) list \<Rightarrow> int list \<Rightarrow> int list \<Rightarrow> 'a::zero ndarray \<Rightarrow> 'a ndarray
     \<Rightarrow> error + ('a ndarray \<times> 'a ndarray)" where
  "gradInputs_expand op pad dil_kernshp ishape topgrad0 kern0 =
     (let cd = convdim op in
      if any_above_1 (subsample op)
      then
        bind_e (expand_topgrad
                  (map (\<lambda>i. ishape ! i + fst (pad ! i) + snd (pad ! i) - dil_kernshp ! i + 1)
                     [0..<cd])
                  (subsample op) topgrad0) (\<lambda>new_topgrad.
        bind_e (when_e (unshared op)
                  (expand_kern cd (map int (drop 2 (shape new_topgrad))) (subsample op)) kern0)
          (\<lambda>kern. Inr (new_topgrad, kern)))
      else Inr (topgrad0, kern0))"

text \<open>
  The image gradient of \<^verbatim>\<open>AbstractConv_gradInputs.perform\<close> before it is cropped, lines
  3301 to 3341: one convolution in mode \<open>full\<close> of the top gradient with the kernel, its
  channel axes swapped.
\<close>

definition gradInputs_image ::
  "conv_params \<Rightarrow> 'a::comm_semiring_0 ndarray \<Rightarrow> 'a ndarray \<Rightarrow> error + 'a ndarray" where
  "gradInputs_image op topgrad1 kern2 =
     (let cd = convdim op in
      if unshared op
      then
        let kern3 = transpose_nd ([1 + cd, 0] @ [1..<1 + cd] @ [2 + cd..<length (shape kern2)])
                      kern2
        in bind_e (when_e (\<not> filter_flip op) (flip_spatial cd) kern3) (\<lambda>kern.
           conv op topgrad1 kern ''full'' (filter_dilation op) (num_groups op) True
             ''backprop inputs'')
      else
        let kern = transpose_nd ([1, 0] @ [2..<2 + cd]) kern2
        in bind_e (when_e (filter_flip op) (flip_spatial cd) topgrad1) (\<lambda>topgrad.
           bind_e (conv op topgrad kern ''full'' (filter_dilation op) (num_groups op) False
                     ''forward'') (\<lambda>img.
             when_e (filter_flip op) (flip_spatial cd) img)))"

text \<open>The padding cropped from the image gradient, lines 3343 to 3353.\<close>

definition crop_image :: "nat \<Rightarrow> (int \<times> int) list \<Rightarrow> 'a ndarray \<Rightarrow> error + 'a ndarray" where
  "crop_image cdim pad img =
     ranged ((0, int (shape img ! 0)) # (0, int (shape img ! 1))
             # map (\<lambda>i. (fst (pad ! i), int (shape img ! (i + 2)) - snd (pad ! i))) [0..<cdim])
       img"

text \<open>
  \<^verbatim>\<open>AbstractConv_gradInputs.perform\<close>, lines 3203 to 3354, on the inputs of a node
  (\<^verbatim>\<open>make_node\<close>, lines 3168 to 3182, has checked the ranks); \<open>ishape\<close> is the input
  \<open>shape\<close>, the spatial shape of the image. The ValueError of the shape check carries the
  expected shape and the shape of the top gradient.
\<close>

definition AbstractConv_gradInputs_perform ::
  "conv_params \<Rightarrow> 'a::comm_semiring_0 ndarray \<Rightarrow> 'a ndarray \<Rightarrow> int list \<Rightarrow> error + 'a ndarray" where
  "AbstractConv_gradInputs_perform op kern0 topgrad0 ishape =
     (let cd = convdim op in
      if unshared op \<and> cd \<noteq> 2
      then Inl (NotImplementedError ''Unshared convolution not implemented for {convdim}D'')
      else if unshared op \<and> length (shape kern0) \<noteq> 2 + 2 * cd
      then Inl (TypeError ''kern must be {2 + 2 * convdim}D tensor for unshared convolution'')
      else if \<not> unshared op \<and> length (shape kern0) \<noteq> 2 + cd
      then Inl (TypeError ''kern must be {2 + convdim}D tensor'')
      else if length (shape topgrad0) \<noteq> 2 + cd
      then Inl (TypeError ''topgrad must be {2 + convdim}D tensor'')
      else
        bind_e (dil_sizes cd (shape kern0) (filter_dilation op)) (\<lambda>dil_kernshp.
        bind_e (border_mode_to_pad (border_mode op) cd dil_kernshp) (\<lambda>pad.
        bind_e (gradInputs_expected_shape op kern0 topgrad0 ishape) (\<lambda>expected_topgrad_shape.
        if expected_topgrad_shape \<noteq> some_shape (shape topgrad0)
        then Inl (ValueError
          ''invalid input_shape for gradInputs: the given input_shape would produce an output of shape {}, but the given topgrad has shape {}''
          [expected_topgrad_shape, some_shape (shape topgrad0)])
        else
          bind_e (gradInputs_expand op pad dil_kernshp ishape topgrad0 kern0)
            (\<lambda>(topgrad1, kern1).
          bind_e (correct_for_groups_inputs op kern1) (\<lambda>kern2.
          bind_e (gradInputs_image op topgrad1 kern2) (\<lambda>img.
            when_e (any_pad pad) (crop_image cd pad) img)))))))"

text \<open>
  \<^verbatim>\<open>AbstractConv2d.grad\<close>, lines 2675 to 2705: the two gradient operators are constructed
  from the properties of the forward operator and applied to \<open>(weights, top, bottom.shape[-2:])\<close>
  and \<open>(bottom, top, weights.shape[-2:])\<close>.
\<close>

definition AbstractConv2d_grad_ops :: "conv_params \<Rightarrow> error + (conv_params \<times> conv_params)" where
  "AbstractConv2d_grad_ops op =
     bind_e (AbstractConv2d_init (Some (imshp op)) (Some (kshp op)) (border_mode op) (subsample op)
               (filter_flip op) (filter_dilation op) (num_groups op) (unshared op)) (\<lambda>grad_inputs.
     bind_e (AbstractConv2d_init (Some (imshp op)) (Some (kshp op)) (border_mode op) (subsample op)
               (filter_flip op) (filter_dilation op) (num_groups op) (unshared op)) (\<lambda>grad_weights.
       Inr (grad_inputs, grad_weights)))"

definition AbstractConv2d_grad ::
  "conv_params \<Rightarrow> 'a::comm_semiring_0 ndarray \<Rightarrow> 'a ndarray \<Rightarrow> 'a ndarray
     \<Rightarrow> error + ('a ndarray \<times> 'a ndarray)" where
  "AbstractConv2d_grad op bottom weights top_grad =
     bind_e (AbstractConv2d_grad_ops op) (\<lambda>(grad_inputs, grad_weights).
     bind_e (AbstractConv_gradInputs_perform grad_inputs weights top_grad
               (map int (drop (length (shape bottom) - 2) (shape bottom)))) (\<lambda>d_bottom.
     bind_e (AbstractConv_gradWeights_perform grad_weights bottom top_grad
               (map int (drop (length (shape weights) - 2) (shape weights)))) (\<lambda>d_weights.
       Inr (d_bottom, d_weights))))"

text \<open>
  A node of the gradient wrt the inputs that reaches the shape check: the ranks are those of
  \<^verbatim>\<open>make_node\<close>, and the padding of the border mode resolves.
\<close>

definition gradInputs_accepts :: "conv_params \<Rightarrow> 'a ndarray \<Rightarrow> 'a ndarray \<Rightarrow> bool" where
  "gradInputs_accepts op kern topgrad =
     (\<not> (unshared op \<and> convdim op \<noteq> 2)
      \<and> length (shape kern) = (if unshared op then 2 + 2 * convdim op else 2 + convdim op)
      \<and> length (shape topgrad) = 2 + convdim op
      \<and> (\<exists>dks pad. dil_sizes (convdim op) (shape kern) (filter_dilation op) = Inr dks
            \<and> border_mode_to_pad (border_mode op) (convdim op) dks = Inr pad))"

section \<open>The native implementation of the cumulative operators\<close>

text \<open>
  The loop of the fallback of \<^verbatim>\<open>numba_funcify_CumOp\<close> over the first axis:
  \<^verbatim>\<open>res[0] = x_axis_first[0]\<close>, then \<^verbatim>\<open>res[m] = res[m - 1] (op) x_axis_first[m]\<close> for
  \<open>m\<close> from 1. \<^verbatim>\<open>np.empty\<close> leaves the values of \<open>res\<close> unspecified.
\<close>

definition set_first :: "nat \<Rightarrow> (nat list \<Rightarrow> 'a) \<Rightarrow> 'a ndarray \<Rightarrow> 'a ndarray" where
  "set_first m row res =
     NdArray (shape res)
       (\<lambda>idx. case idx of [] \<Rightarrow> elem res idx
                         | i # rest \<Rightarrow> if i = m then row rest else elem res idx)"

definition cum_loop :: "('a \<Rightarrow> 'a \<Rightarrow> 'a) \<Rightarrow> nat \<Rightarrow> 'a ndarray \<Rightarrow> 'a ndarray" where
  "cum_loop f n x_axis_first =
     fold (\<lambda>m res. set_first m (\<lambda>rest. f (elem res ((m - 1) # rest)) (elem x_axis_first (m # rest))) res)
       [1..<n]
       (set_first 0 (\<lambda>rest. elem x_axis_first (0 # rest))
          (NdArray (shape x_axis_first) (\<lambda>_. undefined)))"

text \<open>
  \<^verbatim>\<open>np.cumsum(x)\<close> and \<^verbatim>\<open>np.cumprod(x)\<close> without an axis: the cumulative operation over
  the flattened array.
\<close>

definition cum_flat :: "('a \<Rightarrow> 'a \<Rightarrow> 'a) \<Rightarrow> 'a ndarray \<Rightarrow> 'a ndarray" where
  "cum_flat f x =
     NdArray [prod_list (shape x)]
       (\<lambda>idx. case idx of
                 [p] \<Rightarrow> (case map (\<lambda>q. elem x (unravel (shape x) q)) [0..<Suc p] of
                           v # vs \<Rightarrow> fold (\<lambda>w acc. f acc w) vs v
                         | [] \<Rightarrow> undefined)
               | _ \<Rightarrow> undefined)"

text \<open>
  \<^verbatim>\<open>numba_funcify_CumOp\<close>, lines 34 to 97 of
  \<^verbatim>\<open>pytensor/link/numba/dispatch/extra_ops.py\<close>: the function generated for the axis and
  the mode of the operator and the number of axes of its output. The mode is \<open>add\<close> or
  \<open>mul\<close>.
\<close>

definition numba_funcify_CumOp ::
  "int option \<Rightarrow> string \<Rightarrow> nat \<Rightarrow> error + ('a::{plus,times} ndarray \<Rightarrow> 'a ndarray)" where
  "numba_funcify_CumOp axis mode n_dim =
     (case axis of
        None \<Rightarrow> Inr (if mode = ''add'' then cum_flat (+) else cum_flat (*))
      | Some ax0 \<Rightarrow>
          let ax = (if ax0 < 0 then int n_dim + ax0 else ax0)
          in if ax < 0 \<or> ax \<ge> int n_dim
             then Inl (ValueError ''Invalid axis {axis} for array with ndim {ndim}'' [])
             else
               let reaxis_first = nat ax # filter (\<lambda>i. i \<noteq> nat ax) [0..<n_dim];
                   reaxis_first_inv = map (\<lambda>j. index_of j reaxis_first) [0..<n_dim]
               in if mode = ''add''
                  then (if n_dim = 1 then Inr (cum_flat (+))
                        else Inr (\<lambda>x.
                          if shape x ! nat ax < 2 then x
                          else transpose_nd reaxis_first_inv
                                 (cum_loop (+) (shape x ! nat ax) (transpose_nd reaxis_first x))))
                  else (if n_dim = 1 then Inr (cum_flat (*))
                        else Inr (\<lambda>x.
                          if shape x ! nat ax < 2 then x
                          else transpose_nd reaxis_first
                                 (cum_loop (*) (shape x ! nat ax) (transpose_nd reaxis_first x)))))"

text \<open>
  The cumulative operation along an axis, \<^verbatim>\<open>np.cumsum(x, axis)\<close> and
  \<^verbatim>\<open>np.cumprod(x, axis)\<close>: the value at an index accumulates the values of \<open>x\<close> at the
  indices that differ from it on that axis only, from 0 up to it.
\<close>

definition cum_along :: "('a \<Rightarrow> 'a \<Rightarrow> 'a) \<Rightarrow> nat \<Rightarrow> 'a ndarray \<Rightarrow> 'a ndarray" where
  "cum_along f ax x =
     NdArray (shape x)
       (\<lambda>idx. fold (\<lambda>m acc. f acc (elem x (idx[ax := m]))) [1..<Suc (idx ! ax)]
                (elem x (idx[ax := 0])))"

section \<open>Properties of the shape arithmetic\<close>

lemma mode_names_distinct:
  "''half'' \<noteq> ''full''" "''half'' \<noteq> ''valid''" "''full'' \<noteq> ''valid''"
  "''full'' \<noteq> ''half''" "''valid'' \<noteq> ''half''" "''valid'' \<noteq> ''full''"
  by simp_all

lemma explicit_pad_resolve:
  "spec_resolve m dk = Some (pl, pr) \<Longrightarrow> explicit_nonneg m \<Longrightarrow>
   m \<noteq> BStr ''half'' \<Longrightarrow> m \<noteq> BStr ''full'' \<Longrightarrow> m \<noteq> BStr ''valid'' \<Longrightarrow>
   explicit_pad m = Inr (pl, pr)"
proof (induction m rule: explicit_pad.induct)
  case (1 l r)
  then show ?case by (simp add: spec_resolve_def explicit_nonneg_def not_less)
qed (simp_all add: spec_resolve_def explicit_nonneg_def not_less)

text \<open>
  Claim C2. The single-axis forward output size: \<open>None\<close> as soon as one input is
  \<open>None\<close>; otherwise, with \<open>dil_kernel = (kernel - 1) * dilation + 1\<close> and the pad pair
  resolved as the specification words it (non-negative where given explicitly, the subsample
  not zero), the result is \<open>(image + pad_l + pad_r - dil_kernel) // subsample + 1\<close>.
\<close>

theorem get_conv_shape_1axis_spec:
  "(image_shape = None \<or> kernel_shape = None \<or> mode = None \<or> stride = None \<or> dilation = None
      \<longrightarrow> get_conv_shape_1axis image_shape kernel_shape mode stride dilation = Inr None)
   \<and> (spec_resolve m ((k - 1) * d + 1) = Some (pad_l, pad_r) \<and> explicit_nonneg m \<and> s \<noteq> 0
      \<longrightarrow> get_conv_shape_1axis (Some im) (Some k) (Some m) (Some s) (Some d)
            = Inr (Some ((im + pad_l + pad_r - ((k - 1) * d + 1)) div s + 1)))"
proof (intro conjI impI)
  assume "image_shape = None \<or> kernel_shape = None \<or> mode = None \<or> stride = None \<or> dilation = None"
  then show "get_conv_shape_1axis image_shape kernel_shape mode stride dilation = Inr None"
    by (auto simp: get_conv_shape_1axis_def split: option.splits)
next
  assume a: "spec_resolve m ((k - 1) * d + 1) = Some (pad_l, pad_r) \<and> explicit_nonneg m \<and> s \<noteq> 0"
  define dk where "dk = (k - 1) * d + 1"
  have pads: "(if m = BStr ''half'' then Inr (dk div 2, dk div 2)
               else if m = BStr ''full'' then Inr (dk - 1, dk - 1)
               else if m = BStr ''valid'' then Inr (0, 0)
               else explicit_pad m) = (Inr (pad_l, pad_r) :: error + int \<times> int)"
  proof (cases "m = BStr ''half'' \<or> m = BStr ''full'' \<or> m = BStr ''valid''")
    case True
    with a show ?thesis
      unfolding spec_resolve_def dk_def by (auto split: if_splits)
  next
    case False
    with a have "explicit_pad m = Inr (pad_l, pad_r)"
      by (intro explicit_pad_resolve) auto
    with False show ?thesis by simp
  qed
  have arith: "(if pad_r \<noteq> 0 then (if pad_l \<noteq> 0 then im - dk + pad_l else im - dk) + pad_r
                else (if pad_l \<noteq> 0 then im - dk + pad_l else im - dk)) = im + pad_l + pad_r - dk"
    by simp
  show "get_conv_shape_1axis (Some im) (Some k) (Some m) (Some s) (Some d)
            = Inr (Some ((im + pad_l + pad_r - ((k - 1) * d + 1)) div s + 1))"
    unfolding get_conv_shape_1axis_def
    using a by (simp add: Let_def pads [unfolded dk_def] arith [unfolded dk_def] del: explicit_pad.simps)
qed

theorem get_conv_shape_1axis_spec_witness:
  "get_conv_shape_1axis None (Some 3) (Some (BStr ''valid'')) (Some 1) (Some 1) = Inr None
   \<and> get_conv_shape_1axis (Some 10) (Some 3) (Some (BTup [4, 0])) (Some 2) (Some 2) = Inr (Some 5)"
  using get_conv_shape_1axis_spec [of None "Some 3" "Some (BStr ''valid'')" "Some 1" "Some 1"
      "BTup [4, 0]" 3 2 4 0 2 10]
  by (simp add: spec_resolve_def explicit_nonneg_def)

lemma border1_ok_cases:
  "border1_ok m \<Longrightarrow>
     m = BStr ''valid'' \<or> m = BStr ''full'' \<or> m = BStr ''half''
     \<or> (\<exists>v. m = BInt v \<and> 0 \<le> v) \<or> (\<exists>l r. m = BTup [l, r] \<and> 0 \<le> l \<and> 0 \<le> r)"
proof (cases m)
  case (BTup ps)
  assume "border1_ok m"
  with BTup have "length ps = 2" and nn: "list_all (\<lambda>p. 0 \<le> p) ps"
    by (simp_all add: border1_ok_def)
  then obtain l r where "ps = [l, r]"
    by (cases ps; cases "tl ps") auto
  with nn BTup show ?thesis by simp
qed (auto simp: border1_ok_def)

lemma gradweights_known:
  assumes "border1_ok m" "m \<noteq> BStr ''half''"
  shows "\<exists>v. get_conv_gradweights_shape_1axis (Some im) (Some tp) (Some m) (Some 1) (Some d)
              = Inr (Some v)"
  using border1_ok_cases [OF assms(1)] assms(2)
  by (elim disjE exE conjE) (simp_all add: get_conv_gradweights_shape_1axis_def Let_def)

text \<open>
  Claim C5. For a border mode of the data model, the single-axis gradient-wrt-weights shape
  function returns a known value exactly when every input is given, \<open>subsample = 1\<close> and the
  border mode is not \<open>half\<close>; in every other case it returns \<open>None\<close>.
\<close>

theorem gradweights_shape_1axis_known_iff:
  assumes "\<forall>m. mode = Some m \<longrightarrow> border1_ok m"
  shows "((\<exists>v. get_conv_gradweights_shape_1axis image_shape top_shape mode stride dilation
                = Inr (Some v))
          \<longleftrightarrow> (image_shape \<noteq> None \<and> top_shape \<noteq> None \<and> mode \<noteq> None \<and> stride \<noteq> None
               \<and> dilation \<noteq> None \<and> stride = Some 1 \<and> mode \<noteq> Some (BStr ''half'')))
         \<and> (\<not> (image_shape \<noteq> None \<and> top_shape \<noteq> None \<and> mode \<noteq> None \<and> stride \<noteq> None
               \<and> dilation \<noteq> None \<and> stride = Some 1 \<and> mode \<noteq> Some (BStr ''half''))
            \<longrightarrow> get_conv_gradweights_shape_1axis image_shape top_shape mode stride dilation
                = Inr None)"
proof (cases "image_shape \<noteq> None \<and> top_shape \<noteq> None \<and> mode \<noteq> None \<and> stride \<noteq> None
               \<and> dilation \<noteq> None \<and> stride = Some 1 \<and> mode \<noteq> Some (BStr ''half'')")
  case True
  then obtain im tp m d where eqs: "image_shape = Some im" "top_shape = Some tp" "mode = Some m"
      "dilation = Some d" "stride = Some 1" and nh: "m \<noteq> BStr ''half''"
    by auto
  from assms eqs have "border1_ok m" by simp
  from gradweights_known [OF this nh] True eqs show ?thesis by simp
next
  case False
  then have "get_conv_gradweights_shape_1axis image_shape top_shape mode stride dilation
                = Inr None"
    by (auto simp: get_conv_gradweights_shape_1axis_def split: option.splits)
  with False show ?thesis by simp
qed

theorem gradweights_shape_1axis_known_iff_witness:
  "(\<exists>v. get_conv_gradweights_shape_1axis (Some 7) (Some 5) (Some (BInt 1)) (Some 1) (Some 1)
          = Inr (Some v))
   \<and> get_conv_gradweights_shape_1axis (Some 7) (Some 5) (Some (BStr ''half'')) (Some 1) (Some 1)
       = Inr None
   \<and> get_conv_gradweights_shape_1axis (Some 7) (Some 5) (Some (BInt 1)) (Some 2) (Some 1)
       = Inr None"
  using gradweights_shape_1axis_known_iff [of "Some (BInt 1)" "Some 7" "Some 5" "Some 1" "Some 1"]
    gradweights_shape_1axis_known_iff [of "Some (BStr ''half'')" "Some 7" "Some 5" "Some 1" "Some 1"]
    gradweights_shape_1axis_known_iff [of "Some (BInt 1)" "Some 7" "Some 5" "Some 2" "Some 1"]
  by (simp add: border1_ok_def)

text \<open>
  Claim C9, as stated, fails: with image size 3, top size 10, mode \<open>valid\<close>, subsample 1
  and dilation 1 the function returns \<open>-6\<close>, which is not a non-negative integer.
\<close>

theorem gradweights_shape_1axis_negative:
  "get_conv_gradweights_shape_1axis (Some 3) (Some 10) (Some (BStr ''valid'')) (Some 1) (Some 1)
     = Inr (Some (PyInt (- 6))) \<and> \<not> nonneg_int (PyInt (- 6))"
  by (simp add: get_conv_gradweights_shape_1axis_def nonneg_int_def)

text \<open>With a dilation above 1 the true division \<^verbatim>\<open>/\<close> returns a float.\<close>

lemma gradweights_shape_1axis_float:
  "get_conv_gradweights_shape_1axis (Some 7) (Some 3) (Some (BStr ''valid'')) (Some 1) (Some 2)
     = Inr (Some (PyFloat 3))"
  by (simp add: get_conv_gradweights_shape_1axis_def)

text \<open>
  Claim C9, amended. With \<open>subsample = 1\<close>, a dilation of at most 1 and a border mode of the
  data model other than \<open>half\<close>, the function returns the integer
  \<open>image + pad_l + pad_r - top + 1\<close> (\<open>top - image + 1\<close> for \<open>full\<close>), and this integer is
  non-negative exactly when \<open>top \<le> image + pad_l + pad_r + 1\<close> (\<open>image \<le> top + 1\<close> for
  \<open>full\<close>).
\<close>

theorem gradweights_shape_1axis_undilated:
  assumes "border1_ok m" "m \<noteq> BStr ''half''" "d \<le> 1"
  shows "\<exists>n. get_conv_gradweights_shape_1axis (Some im) (Some tp) (Some m) (Some 1) (Some d)
               = Inr (Some (PyInt n))
             \<and> n = (if m = BStr ''full'' then tp - im + 1 else im + explicit_total m - tp + 1)
             \<and> (nonneg_int (PyInt n)
                  \<longleftrightarrow> (if m = BStr ''full'' then im \<le> tp + 1
                       else tp \<le> im + explicit_total m + 1))"
  using border1_ok_cases [OF assms(1)] assms(2,3)
  by (elim disjE exE conjE)
     (auto simp: get_conv_gradweights_shape_1axis_def Let_def explicit_total_def nonneg_int_def)

theorem gradweights_shape_1axis_undilated_witness:
  "get_conv_gradweights_shape_1axis (Some 7) (Some 5) (Some (BTup [1, 0])) (Some 1) (Some 1)
     = Inr (Some (PyInt 4))"
  using gradweights_shape_1axis_undilated [of "BTup [1, 0]" 1 7 5]
  by (simp add: border1_ok_def explicit_total_def)

section \<open>Properties of the construction of operators\<close>

lemma bind_e_Inr [simp]: "bind_e (Inr x) f = f x"
  by (simp add: bind_e_def)

lemma bind_e_Inl [simp]: "bind_e (Inl e) f = Inl e"
  by (simp add: bind_e_def)

lemma bind_e_eq_Inr: "bind_e m f = Inr y \<longleftrightarrow> (\<exists>x. m = Inr x \<and> f x = Inr y)"
  by (cases m) simp_all






















section \<open>Properties of the composition layer\<close>

lemma assert_shape_matches:
  assumes "list_all2 (\<lambda>s v. s = None \<or> s = Some v) static x"
  shows "assert_shape flag x static = Inr x"
proof -
  from assms have len: "length static = length x"
    by (rule list_all2_lengthD)
  have "\<not> (\<exists>i < length x. static ! i \<noteq> None \<and> static ! i \<noteq> Some (x ! i))"
    using assms by (auto simp: list_all2_conv_all_nth)
  with len show ?thesis
    unfolding assert_shape_def by auto
qed

lemma sequence_e_map_Inr:
  "sequence_e (map (\<lambda>i. Inr (f i)) is) = Inr (map f is)"
  by (induction "is") simp_all

lemma replace_known_matches:
  assumes "list_all2 (\<lambda>s v. s = None \<or> s = Some v) static x"
  shows "replace_known static x (length x) = Inr (map (\<lambda>i. case static ! i of Some v \<Rightarrow> Some v | None \<Rightarrow> Some (x ! i)) [0..<length x])"
proof -
  from assms have len: "length static = length x"
    by (rule list_all2_lengthD)
  have "map (\<lambda>i. bind_e (nth_e static i) (\<lambda>c.
                            case c of Some v \<Rightarrow> Inr (Some v)
                                    | None \<Rightarrow> bind_e (nth_e x i) (\<lambda>v. Inr (Some v))))
                   [0..<length x]
        = map (\<lambda>i. Inr (case static ! i of Some v \<Rightarrow> Some v | None \<Rightarrow> Some (x ! i))) [0..<length x]"
  proof (rule map_cong [OF refl])
    fix i assume "i \<in> set [0..<length x]"
    then have "i < length x" by simp
    with len show "bind_e (nth_e static i) (\<lambda>c.
                            case c of Some v \<Rightarrow> Inr (Some v)
                                    | None \<Rightarrow> bind_e (nth_e x i) (\<lambda>v. Inr (Some v)))
         = Inr (case static ! i of Some v \<Rightarrow> Some v | None \<Rightarrow> Some (x ! i))"
      by (cases "static ! i") (simp_all add: nth_e_def)
  qed
  then show ?thesis
    unfolding replace_known_def by (simp only: sequence_e_map_Inr)
qed

lemma replace_known_matches':
  assumes "list_all2 (\<lambda>s v. s = None \<or> s = Some v) static x"
  shows "replace_known static x (length x) = Inr (map Some x)"
proof -
  have "map (\<lambda>i. case static ! i of Some v \<Rightarrow> Some v | None \<Rightarrow> Some (x ! i)) [0..<length x]
        = map (\<lambda>i. Some (x ! i)) [0..<length x]"
  proof (rule map_cong [OF refl])
    fix i assume "i \<in> set [0..<length x]"
    then have "i < length x" by simp
    with assms have "static ! i = None \<or> static ! i = Some (x ! i)"
      by (simp add: list_all2_conv_all_nth)
    then show "(case static ! i of Some v \<Rightarrow> Some v | None \<Rightarrow> Some (x ! i)) = Some (x ! i)"
      by (cases "static ! i") simp_all
  qed
  also have "\<dots> = map Some (map ((!) x) [0..<length x])"
    by (simp add: o_def)
  also have "\<dots> = map Some x"
    by (simp only: map_nth)
  finally show ?thesis
    using replace_known_matches [OF assms] by simp
qed

lemma output_shape_2d:
  assumes "s0 \<noteq> 0" "s1 \<noteq> 0"
    and "get_conv_shape_1axis (Some h) (Some kh) (Some m0) (Some s0) (Some d0) = Inr (Some oh)"
    and "get_conv_shape_1axis (Some w) (Some kw) (Some m1) (Some s1) (Some d1) = Inr (Some ow)"
    and "border_axis bm 0 = Inr m0" "border_axis bm 1 = Inr m1"
  shows "get_conv_output_shape [Some b, Some c, Some h, Some w] [Some oc, Some ic, Some kh, Some kw]
           bm [s0, s1] (Some [d0, d1]) = Inr [Some b, Some oc, Some oh, Some ow]"
  using assms
  by (simp add: get_conv_output_shape_def nth_e_def py_slice_from_def Let_def)

lemma shape_matches_snoc:
  "shape_matches static x \<Longrightarrow> shape_matches (static @ [Some v]) (x @ [v])"
  by (simp add: shape_matches_def list_all2_appendI)

lemma shape_matches_replicate: "shape_matches (replicate (length x) None) x"
  by (simp add: shape_matches_def list_all2_conv_all_nth)

lemma AbstractConv_apply_2d:
  assumes op: "convdim op = 2" "\<not> unshared op" "subsample op = [s0, s1]"
      "filter_dilation op = [d0, d1]"
    and m: "shape_matches (imshp op) [b, c, h, w]" "shape_matches (kshp op) [oc, ic, kh, kw]"
    and s: "s0 \<noteq> 0" "s1 \<noteq> 0"
    and ax: "border_axis (border_mode op) 0 = Inr m0" "border_axis (border_mode op) 1 = Inr m1"
    and sh: "get_conv_shape_1axis (Some h) (Some kh) (Some m0) (Some s0) (Some d0) = Inr (Some oh)"
       "get_conv_shape_1axis (Some w) (Some kw) (Some m1) (Some s1) (Some d1) = Inr (Some ow)"
  shows "AbstractConv_apply flag op [b, c, h, w] [oc, ic, kh, kw]
           = Inr [Some b, Some oc, Some oh, Some ow]"
proof -
  have a1: "assert_shape flag [b, c, h, w] (imshp op) = Inr [b, c, h, w]"
    and a2: "assert_shape flag [oc, ic, kh, kw] (kshp op) = Inr [oc, ic, kh, kw]"
    using m by (simp_all add: shape_matches_def assert_shape_matches)
  have r1: "replace_known (imshp op) [b, c, h, w] 4 = Inr [Some b, Some c, Some h, Some w]"
    using replace_known_matches' [OF m(1) [unfolded shape_matches_def]]
    by (simp add: eval_nat_numeral)
  have r2: "replace_known (kshp op) [oc, ic, kh, kw] 4 = Inr [Some oc, Some ic, Some kh, Some kw]"
    using replace_known_matches' [OF m(2) [unfolded shape_matches_def]]
    by (simp add: eval_nat_numeral)
  have "AbstractConv_infer_shape op [b, c, h, w] [oc, ic, kh, kw]
          = Inr [Some b, Some oc, Some oh, Some ow]"
    unfolding AbstractConv_infer_shape_def
    by (simp add: op r1 r2 output_shape_2d [OF s sh ax])
  then show ?thesis
    unfolding AbstractConv_apply_def by (simp add: op a1 a2)
qed

lemma causal_axis0:
  assumes "1 \<le> k" "1 \<le> d" "s \<noteq> 0"
  shows "get_conv_shape_1axis (Some l) (Some k)
           (Some (if k = 1 then BStr ''valid'' else BTup [d * (k - 1), 0])) (Some s) (Some d)
         = Inr (Some ((l - 1) div s + 1))"
proof (cases "k = 1")
  case True
  with assms show ?thesis by (simp add: get_conv_shape_1axis_def Let_def)
next
  case False
  with assms have "0 < d * (k - 1)" by simp
  with False assms show ?thesis
    by (simp add: get_conv_shape_1axis_def Let_def algebra_simps)
qed

lemma causal_axis1:
  "get_conv_shape_1axis (Some 1) (Some 1) (Some (if k = 1 then BStr ''valid'' else BInt 0))
     (Some 1) (Some 1) = Inr (Some 1)"
  by (simp add: get_conv_shape_1axis_def)

lemma causal_init_border_mode:
  assumes "1 \<le> k" "1 \<le> d"
  shows "init_border_mode 2 (BMTuple [BTup [d * (k - 1), 0], BInt 0])
         = Inr (if k = 1 then BMStr ''valid'' else BMTuple [BTup [d * (k - 1), 0], BInt 0])"
proof (cases "k = 1")
  case True
  then show ?thesis by (simp add: init_border_mode_def)
next
  case False
  with assms have "0 < d * (k - 1)" by simp
  with False assms show ?thesis by (simp add: init_border_mode_def)
qed

text \<open>
  Claim C7. For an input of shape \<open>(b, c, l)\<close>, filters of shape \<open>(oc, ic, k)\<close> with
  \<open>k \<ge> 1\<close> and a dilation \<open>d \<ge> 1\<close>, \<^verbatim>\<open>causal_conv1d\<close> constructs its 2D operator from the
  border mode \<open>((d * (k - 1), 0), 0)\<close>, whose padding is \<open>d * (k - 1)\<close> on the left of the
  temporal axis and none elsewhere, and with \<open>subsample = 1\<close> the output has the temporal
  length \<open>l\<close> of the input.
\<close>

theorem causal_conv1d_padding:
  assumes k: "1 \<le> k" and d: "1 \<le> d" and s: "1 \<le> s" and g: "1 \<le> g"
    and fs: "shape_matches filter_shape [oc, ic, k]" "filter_shape ! 2 = Some k"
    and ins: "\<forall>sh. input_shape = Some sh \<longrightarrow> shape_matches sh [b, c, l]"
  shows "\<exists>op out. causal_conv1d flag [b, c, l] [oc, ic, k] filter_shape input_shape s flip d g False
                    = Inr (op, out)
           \<and> init_border_mode 2 (BMTuple [BTup [d * (k - 1), 0], BInt 0]) = Inr (border_mode op)
           \<and> border_mode_to_pad (border_mode op) 2 [(k - 1) * d + 1, 1]
               = Inr [(d * (k - 1), 0), (0, 0)]
           \<and> (s = 1 \<longrightarrow> out = [Some b, Some oc, Some l])"
proof -
  define bm where "bm = (if k = 1 then BMStr ''valid'' else BMTuple [BTup [d * (k - 1), 0], BInt 0])"
  define ishp where "ishp = (case input_shape of None \<Rightarrow> replicate 4 None | Some sh \<Rightarrow> sh @ [Some 1])"
  define op where "op = \<lparr>convdim = 2, border_mode = bm, subsample = [s, 1],
      filter_flip = flip, imshp = ishp, kshp = filter_shape @ [Some 1],
      filter_dilation = [d, 1], num_groups = g, unshared = False\<rparr>"
  have flen: "length filter_shape = 3"
    using fs(1) by (auto simp: shape_matches_def dest!: list_all2_lengthD)
  have ilen: "\<not> (case input_shape of None \<Rightarrow> False | Some sh \<Rightarrow> length sh \<noteq> 3)"
    using ins by (auto simp: shape_matches_def split: option.splits dest!: list_all2_lengthD)
  have f2: "(filter_shape @ [Some 1]) ! 2 = Some k"
    using fs(2) flen by (simp add: nth_append)
  have ib: "init_border_mode 2 (BMTuple [BTup [d * (k - 1), 0], BInt 0]) = Inr bm"
    unfolding bm_def using k d by (rule causal_init_border_mode)
  have init: "AbstractConv2d_init (map_option (\<lambda>sh. sh @ [Some 1]) input_shape)
                (Some (filter_shape @ [Some 1])) (BMTuple [BTup [d * (k - 1), 0], BInt 0])
                [s, 1] flip [d, 1] g False = Inr op"
    using g unfolding AbstractConv2d_init_def BaseAbstractConv_init_def op_def ishp_def
    by (simp add: ib [unfolded numeral_2_eq_2] Let_def eval_nat_numeral split: option.splits)
  have m1: "shape_matches (imshp op) [b, c, l, 1]"
  proof (cases input_shape)
    case None
    then show ?thesis
      using shape_matches_replicate [of "[b, c, l, 1]"]
      by (simp add: op_def ishp_def eval_nat_numeral)
  next
    case (Some sh)
    with ins have "shape_matches sh [b, c, l]" by simp
    from shape_matches_snoc [OF this, of 1] Some show ?thesis
      by (simp add: op_def ishp_def)
  qed
  have m2: "shape_matches (kshp op) [oc, ic, k, 1]"
    using shape_matches_snoc [OF fs(1), of 1] by (simp add: op_def)
  have ax0: "border_axis (border_mode op) 0
               = Inr (if k = 1 then BStr ''valid'' else BTup [d * (k - 1), 0])"
    and ax1: "border_axis (border_mode op) 1 = Inr (if k = 1 then BStr ''valid'' else BInt 0)"
    by (simp_all add: op_def bm_def border_axis_def nth_e_def)
  have s0: "s \<noteq> 0" using s by simp
  have app: "AbstractConv_apply flag op [b, c, l, 1] [oc, ic, k, 1]
               = Inr [Some b, Some oc, Some ((l - 1) div s + 1), Some 1]"
    by (rule AbstractConv_apply_2d [where ?s0.0 = s and ?s1.0 = 1 and ?d0.0 = d and ?d1.0 = 1,
          OF _ _ _ _ m1 m2 s0 _ ax0 ax1 causal_axis0 [OF k d s0] causal_axis1])
       (simp_all add: op_def)
  have res: "causal_conv1d flag [b, c, l] [oc, ic, k] filter_shape input_shape s flip d g False
               = Inr (op, [Some b, Some oc, Some ((l - 1) div s + 1)])"
    unfolding causal_conv1d_def using flen ilen
    by (simp add: Let_def f2 init app)
  have pad: "border_mode_to_pad (border_mode op) 2 [(k - 1) * d + 1, 1]
               = Inr [(d * (k - 1), 0), (0, 0)]"
  proof -
    have "0 \<le> d * (k - 1)" using k d by simp
    then show ?thesis
      by (simp add: op_def bm_def border_mode_to_pad_def eval_nat_numeral)
  qed
  show ?thesis
    using res ib pad by (simp add: op_def)
qed

theorem causal_conv1d_padding_witness:
  "\<exists>op. causal_conv1d False [2, 3, 10] [4, 3, 3] [None, None, Some 3] None 1 True 2 1 False
          = Inr (op, [Some 2, Some 4, Some 10])
      \<and> border_mode op = BMTuple [BTup [4, 0], BInt 0]
      \<and> border_mode_to_pad (border_mode op) 2 [5, 1] = Inr [(4, 0), (0, 0)]"
  using causal_conv1d_padding [of 3 2 1 1 "[None, None, Some 3]" 4 3 None 2 3 10 False True]
  by (auto simp: shape_matches_def init_border_mode_def)

section \<open>Properties of the cumulative operators\<close>

lemma upt_3: "[0..<3] = [0, 1, 2]" by (simp add: upt_rec)

lemma shape_set_first [simp]: "shape (set_first m row res) = shape res"
  by (simp add: set_first_def)

lemma shape_fold_set_first:
  "shape (fold (\<lambda>m res. set_first m (g m res) res) ms r) = shape r"
  by (induction ms arbitrary: r) simp_all

lemma shape_cum_loop [simp]: "shape (cum_loop f n x) = shape x"
  unfolding cum_loop_def by (simp add: shape_fold_set_first)

lemma shape_transpose_nd [simp]: "shape (transpose_nd axes a) = map (\<lambda>k. shape a ! k) axes"
  by (simp add: transpose_nd_def)

text \<open>
  Claim C3 fails on the code. For an array of shape \<open>(1, 1, 2)\<close> and axis 2 the function
  generated for the mode \<open>mul\<close> transposes its result with \<open>reaxis_first\<close> again, not with
  its inverse, and returns an array of shape \<open>(1, 2, 1)\<close>; the cumulative product along the
  axis has the shape \<open>(1, 1, 2)\<close> of the input.
\<close>

theorem cumprod_fallback_wrong_axes:
  "(case numba_funcify_CumOp (Some 2) ''mul'' 3 of
      Inl e \<Rightarrow> False
    | Inr cumop \<Rightarrow>
        shape (cumop (NdArray [1, 1, 2] (\<lambda>idx. if idx = [0, 0, 1] then 3 else (2::int)))) = [1, 2, 1]
        \<and> shape (cum_along (*) 2 (NdArray [1, 1, 2] (\<lambda>idx. if idx = [0, 0, 1] then 3 else (2::int))))
            = [1, 1, 2]
        \<and> elem (cum_along (*) 2 (NdArray [1, 1, 2] (\<lambda>idx. if idx = [0, 0, 1] then 3 else (2::int))))
            [0, 0, 1] = 6)"
  by (simp add: numba_funcify_CumOp_def Let_def upt_3 cum_along_def)

section \<open>Properties of the gradient wrt the inputs and of the groups\<close>

lemma when_e_eq_Inr: "when_e c f x = Inr y \<longleftrightarrow> (if c then f x = Inr y else y = x)"
  by (auto simp: when_e_def)

lemma gradInputs_perform_mismatch:
  assumes "gradInputs_accepts op kern topgrad"
    and "gradInputs_expected_shape op kern topgrad ishape = Inr expected"
    and "expected \<noteq> some_shape (shape topgrad)"
  shows "AbstractConv_gradInputs_perform op kern topgrad ishape
           = Inl (ValueError
          ''invalid input_shape for gradInputs: the given input_shape would produce an output of shape {}, but the given topgrad has shape {}''
          [expected, some_shape (shape topgrad)])"
proof -
  from assms(1) obtain dks pad where
    d: "dil_sizes (convdim op) (shape kern) (filter_dilation op) = Inr dks"
    and p: "border_mode_to_pad (border_mode op) (convdim op) dks = Inr pad"
    and r: "\<not> (unshared op \<and> convdim op \<noteq> 2)"
      "length (shape kern) = (if unshared op then 2 + 2 * convdim op else 2 + convdim op)"
      "length (shape topgrad) = 2 + convdim op"
    unfolding gradInputs_accepts_def by blast
  show ?thesis
    unfolding AbstractConv_gradInputs_perform_def Let_def
    using r by (simp add: d p assms(2,3))
qed

lemma gradInputs_perform_proceeds:
  assumes "AbstractConv_gradInputs_perform op kern topgrad ishape = Inr img"
  shows "gradInputs_expected_shape op kern topgrad ishape = Inr (some_shape (shape topgrad))"
proof -
  from assms obtain expected where
    "gradInputs_expected_shape op kern topgrad ishape = Inr expected"
    "\<not> expected \<noteq> some_shape (shape topgrad)"
    unfolding AbstractConv_gradInputs_perform_def Let_def
    by (auto simp: bind_e_eq_Inr split: if_splits)
  then show ?thesis by simp
qed


text \<open>
  Claim C6. On a node whose padding resolves, \<^verbatim>\<open>AbstractConv_gradInputs.perform\<close>
  raises the ValueError that names the recomputed forward output shape and the shape of the
  top gradient whenever the two differ; and whenever it returns an image gradient, the
  recomputed shape is the shape of the top gradient.
\<close>

theorem gradInputs_shape_check:
  "(gradInputs_accepts op kern topgrad
      \<and> gradInputs_expected_shape op kern topgrad ishape = Inr expected
      \<and> expected \<noteq> some_shape (shape topgrad)
    \<longrightarrow> AbstractConv_gradInputs_perform op kern topgrad ishape
          = Inl (ValueError
          ''invalid input_shape for gradInputs: the given input_shape would produce an output of shape {}, but the given topgrad has shape {}''
          [expected, some_shape (shape topgrad)]))
   \<and> (AbstractConv_gradInputs_perform op kern' topgrad' ishape' = Inr img
    \<longrightarrow> gradInputs_expected_shape op kern' topgrad' ishape' = Inr (some_shape (shape topgrad')))"
  using gradInputs_perform_mismatch gradInputs_perform_proceeds by blast

lemma gradInputs_example_proceeds:
  "(case AbstractConv_gradInputs_perform
      \<lparr>convdim = 2, border_mode = BMStr ''valid'', subsample = [1, 1],
           filter_flip = True, imshp = [None, None, None, None], kshp = [None, None, None, None],
           filter_dilation = [1, 1], num_groups = 1, unshared = False\<rparr>
      (NdArray [1, 1, 2, 2] (\<lambda>_. 2 :: int)) (NdArray [1, 1, 3, 3] (\<lambda>_. 3)) [4, 4] of
      Inr img \<Rightarrow> True | Inl _ \<Rightarrow> False)"
  by code_simp

lemma gradInputs_example_expected:
  "gradInputs_expected_shape
      \<lparr>convdim = 2, border_mode = BMStr ''valid'', subsample = [1, 1],
           filter_flip = True, imshp = [None, None, None, None], kshp = [None, None, None, None],
           filter_dilation = [1, 1], num_groups = 1, unshared = False\<rparr>
      (NdArray [1, 1, 2, 2] (\<lambda>_. 2 :: int)) (NdArray [1, 1, 3, 3] (\<lambda>_. 3 :: int)) [3, 3]
    = Inr [Some 1, Some 1, Some 2, Some 2]"
  by code_simp

lemma gradInputs_example_accepts:
  "gradInputs_accepts
      \<lparr>convdim = 2, border_mode = BMStr ''valid'', subsample = [1, 1],
           filter_flip = True, imshp = [None, None, None, None], kshp = [None, None, None, None],
           filter_dilation = [1, 1], num_groups = 1, unshared = False\<rparr>
      (NdArray [1, 1, 2, 2] (\<lambda>_. 2 :: int)) (NdArray [1, 1, 3, 3] (\<lambda>_. 3 :: int))"
  by (simp add: gradInputs_accepts_def dil_sizes_def border_mode_to_pad_def)

theorem gradInputs_shape_check_witness:
  "AbstractConv_gradInputs_perform
      \<lparr>convdim = 2, border_mode = BMStr ''valid'', subsample = [1, 1],
           filter_flip = True, imshp = [None, None, None, None], kshp = [None, None, None, None],
           filter_dilation = [1, 1], num_groups = 1, unshared = False\<rparr>
      (NdArray [1, 1, 2, 2] (\<lambda>_. 2 :: int)) (NdArray [1, 1, 3, 3] (\<lambda>_. 3)) [3, 3]
     = Inl (ValueError
          ''invalid input_shape for gradInputs: the given input_shape would produce an output of shape {}, but the given topgrad has shape {}''
          [[Some 1, Some 1, Some 2, Some 2], [Some 1, Some 1, Some 3, Some 3]])
   \<and> gradInputs_expected_shape
      \<lparr>convdim = 2, border_mode = BMStr ''valid'', subsample = [1, 1],
           filter_flip = True, imshp = [None, None, None, None], kshp = [None, None, None, None],
           filter_dilation = [1, 1], num_groups = 1, unshared = False\<rparr>
      (NdArray [1, 1, 2, 2] (\<lambda>_. 2 :: int)) (NdArray [1, 1, 3, 3] (\<lambda>_. 3 :: int)) [4, 4]
     = Inr [Some 1, Some 1, Some 3, Some 3]"
proof -
  let ?op = "\<lparr>convdim = 2, border_mode = BMStr ''valid'', subsample = [1, 1],
           filter_flip = True, imshp = [None, None, None, None], kshp = [None, None, None, None],
           filter_dilation = [1, 1], num_groups = 1, unshared = False\<rparr>"
  let ?k = "NdArray [1, 1, 2, 2] (\<lambda>_. 2 :: int)"
  let ?t = "NdArray [1, 1, 3, 3] (\<lambda>_. 3 :: int)"
  obtain img where img: "AbstractConv_gradInputs_perform ?op ?k ?t [4, 4] = Inr img"
    using gradInputs_example_proceeds by (auto split: sum.splits)
  show ?thesis
    using gradInputs_shape_check [of ?op ?k ?t "[3, 3]" "[Some 1, Some 1, Some 2, Some 2]"
        ?k ?t "[4, 4]" img]
      gradInputs_example_accepts gradInputs_example_expected img
    by (simp add: some_shape_def)
qed






text \<open>The error is the ValueError of the divisibility check.\<close>

lemma conv_indivisible_example:
  "(case conv \<lparr>convdim = 2, border_mode = BMStr ''valid'', subsample = [1, 1],
            filter_flip = True, imshp = [Some 1, Some 3, Some 5, Some 5],
            kshp = [Some 4, Some 1, Some 3, Some 3],
            filter_dilation = [1, 1], num_groups = 2, unshared = False\<rparr>
          (NdArray [1, 3, 5, 5] (\<lambda>_. 1 :: int)) (NdArray [4, 1, 3, 3] (\<lambda>_. 1))
          ''valid'' [1, 1] 2 False ''forward'' of
      Inl e \<Rightarrow> e = ValueError ''number of input channels must be divible by num_groups'' []
    | Inr _ \<Rightarrow> False)"
  by code_simp

end
